theory Spec2Isabelle
  imports Complex_Main "HOL-Library.Product_Lexorder"
begin

section \<open>Numbers, rounding and formatting\<close>

text \<open>
  A JavaScript number is modelled as an exact rational (\<^typ>\<open>rat\<close>); the one
  non-finite value the modelled code can produce, the \<open>NaN\<close> of \<open>0 / 0\<close>, is
  \<^const>\<open>None\<close> of an option. Rounding error of IEEE doubles is outside the model.
\<close>

text \<open>\<open>Math.round(x * 100) / 100\<close>; \<open>Math.round\<close> is \<open>floor(x + 0.5)\<close>.\<close>

definition round2 :: "rat \<Rightarrow> rat" where
  "round2 x = of_int \<lfloor>x * 100 + 1 / 2\<rfloor> / 100"

definition digit_char :: "nat \<Rightarrow> char" where
  "digit_char d = ''0123456789'' ! d"

fun show_nat :: "nat \<Rightarrow> string" where
  "show_nat n = (if n < 10 then [digit_char n] else show_nat (n div 10) @ [digit_char (n mod 10)])"

text \<open>The string of an integer, as a template literal prints it.\<close>

definition show_int :: "int \<Rightarrow> string" where
  "show_int i = (if i < 0 then ''-'' @ show_nat (nat (- i)) else show_nat (nat i))"

text \<open>
  \<open>x.toFixed(2)\<close>: the sign is split off, the magnitude is rounded to the nearest
  hundredth (the larger one on a tie) and printed with two decimals.
\<close>

definition toFixed2 :: "rat \<Rightarrow> string" where
  "toFixed2 x =
     (let n = nat \<lfloor>\<bar>x\<bar> * 100 + 1 / 2\<rfloor>
      in (if x < 0 then ''-'' else []) @ show_nat (n div 100) @ ''.'' @
         [digit_char (n mod 100 div 10), digit_char (n mod 10)])"

text \<open>\<open>a || b\<close> where \<open>a\<close> is a number or \<open>undefined\<close>: \<open>undefined\<close> and \<open>0\<close> are falsy.\<close>

definition js_or :: "rat option \<Rightarrow> rat \<Rightarrow> rat" where
  "js_or a b = (case a of None \<Rightarrow> b | Some v \<Rightarrow> if v = 0 then b else v)"

section \<open>Dates\<close>

text \<open>
  A valid \<open>Date\<close> object is represented by the calendar fields its getters return:
  \<open>getFullYear()\<close>, \<open>getMonth()\<close> (0 to 11) and \<open>getDate()\<close>. The server's local
  time is taken to be UTC, so the fields are those of the ISO date string the object was
  parsed from. \<open>Invalid Date\<close> is \<^const>\<open>None\<close> of \<open>jsdate option\<close>.
\<close>

datatype jsdate = Date (getFullYear: int) (getMonth: nat) (getDate: nat)

text \<open>
  The order of \<open>getTime()\<close> on dates at midnight: lexicographic on year, month, day.
\<close>

definition getTime :: "jsdate \<Rightarrow> int \<times> nat \<times> nat" where
  "getTime d = (getFullYear d, getMonth d, getDate d)"

definition valid_date :: "jsdate \<Rightarrow> bool" where
  "valid_date d = (getMonth d < 12 \<and> 1 \<le> getDate d \<and> getDate d \<le> 31)"

section \<open>Static market data\<close>

record MarketIndex =
  name :: string
  averageReturn :: rat

text \<open>
  \<open>MARKET_INDICES\<close>; the five-year \<open>historicalData\<close> lists are not read by the functions
  modelled here. An object indexed by a string is a map on its own keys; the property
  names that every object inherits (\<open>toString\<close>, \<open>constructor\<close>) are not modelled.
\<close>

definition sp500_index :: MarketIndex where
  "sp500_index = \<lparr>name = ''S&P 500'', averageReturn = 0.10\<rparr>"

definition MARKET_INDICES :: "string \<Rightarrow> MarketIndex option" where
  "MARKET_INDICES = map_of
    [(''sp500'', sp500_index),
     (''nasdaq'', \<lparr>name = ''NASDAQ'', averageReturn = 0.115\<rparr>),
     (''dow'', \<lparr>name = ''Dow Jones'', averageReturn = 0.095\<rparr>),
     (''russell2000'', \<lparr>name = ''Russell 2000'', averageReturn = 0.092\<rparr>),
     (''ftse100'', \<lparr>name = ''FTSE 100'', averageReturn = 0.075\<rparr>),
     (''nikkei225'', \<lparr>name = ''Nikkei 225'', averageReturn = 0.085\<rparr>)]"

text \<open>
  The yearly return tables, 1990 to 2024, in key order. The source holds two copies of the
  tables of \<open>sp500\<close>, \<open>nasdaq\<close>, \<open>russell2000\<close> and of the Dow Jones, one in each
  function; they agree entry by entry, so each is written once here.
\<close>

definition returns_sp500 :: "(int \<times> rat) list" where
  "returns_sp500 =
    [(1990, 0.0310), (1991, 0.3047), (1992, 0.0762), (1993, 0.1008), (1994, 0.0132),
     (1995, 0.3758), (1996, 0.2296), (1997, 0.3336), (1998, 0.2858), (1999, 0.2104),
     (2000, - 0.0910), (2001, - 0.1189), (2002, - 0.2210), (2003, 0.2868), (2004, 0.1088),
     (2005, 0.0491), (2006, 0.1579), (2007, 0.0549), (2008, - 0.3700), (2009, 0.2646),
     (2010, 0.1506), (2011, 0.0211), (2012, 0.1600), (2013, 0.3239), (2014, 0.1369),
     (2015, 0.0138), (2016, 0.1196), (2017, 0.2183), (2018, - 0.0438), (2019, 0.3157),
     (2020, 0.1640), (2021, 0.2689), (2022, - 0.1954), (2023, 0.2411), (2024, 0.12)]"

definition returns_dow :: "(int \<times> rat) list" where
  "returns_dow =
    [(1990, 0.0404), (1991, 0.2014), (1992, 0.0421), (1993, 0.1372), (1994, 0.0213),
     (1995, 0.3336), (1996, 0.2615), (1997, 0.2275), (1998, 0.1611), (1999, 0.2725),
     (2000, - 0.0618), (2001, - 0.0715), (2002, - 0.1693), (2003, 0.2514), (2004, 0.0317),
     (2005, - 0.0061), (2006, 0.1606), (2007, 0.0626), (2008, - 0.3394), (2009, 0.1876),
     (2010, 0.1102), (2011, 0.0554), (2012, 0.0726), (2013, 0.2654), (2014, 0.0751),
     (2015, - 0.0234), (2016, 0.1342), (2017, 0.2517), (2018, - 0.0587), (2019, 0.2234),
     (2020, 0.0725), (2021, 0.1885), (2022, - 0.0856), (2023, 0.1397), (2024, 0.095)]"

definition returns_nasdaq :: "(int \<times> rat) list" where
  "returns_nasdaq =
    [(1990, - 0.1746), (1991, 0.5648), (1992, 0.1561), (1993, 0.1456), (1994, - 0.0318),
     (1995, 0.3963), (1996, 0.2267), (1997, 0.2144), (1998, 0.3969), (1999, 0.8550),
     (2000, - 0.3910), (2001, - 0.2102), (2002, - 0.3155), (2003, 0.5015), (2004, 0.0885),
     (2005, 0.0135), (2006, 0.0956), (2007, 0.0975), (2008, - 0.4018), (2009, 0.4338),
     (2010, 0.1694), (2011, - 0.0180), (2012, 0.1574), (2013, 0.3848), (2014, 0.1351),
     (2015, 0.0559), (2016, 0.0739), (2017, 0.2836), (2018, - 0.0356), (2019, 0.3556),
     (2020, 0.4391), (2021, 0.2103), (2022, - 0.3256), (2023, 0.4381), (2024, 0.115)]"

definition returns_russell2000 :: "(int \<times> rat) list" where
  "returns_russell2000 =
    [(1990, - 0.1949), (1991, 0.4621), (1992, 0.1835), (1993, 0.2109), (1994, - 0.0185),
     (1995, 0.2875), (1996, 0.1643), (1997, 0.2236), (1998, - 0.0251), (1999, 0.2123),
     (2000, - 0.0303), (2001, 0.0249), (2002, - 0.2044), (2003, 0.4741), (2004, 0.1825),
     (2005, 0.0484), (2006, 0.1837), (2007, - 0.0157), (2008, - 0.3349), (2009, 0.2746),
     (2010, 0.2688), (2011, - 0.0412), (2012, 0.1609), (2013, 0.3870), (2014, 0.0489),
     (2015, - 0.0441), (2016, 0.2123), (2017, 0.1449), (2018, - 0.1151), (2019, 0.2517),
     (2020, 0.1994), (2021, 0.1462), (2022, - 0.2044), (2023, 0.1665), (2024, 0.092)]"

definition returns_ftse100 :: "(int \<times> rat) list" where
  "returns_ftse100 =
    [(1990, - 0.0935), (1991, 0.1634), (1992, 0.1985), (1993, 0.2834), (1994, - 0.0954),
     (1995, 0.2034), (1996, 0.1185), (1997, 0.2485), (1998, 0.1434), (1999, 0.1785),
     (2000, - 0.1034), (2001, - 0.1385), (2002, - 0.2485), (2003, 0.1385), (2004, 0.0785),
     (2005, 0.1634), (2006, 0.1034), (2007, 0.0385), (2008, - 0.3134), (2009, 0.2234),
     (2010, 0.0934), (2011, - 0.0585), (2012, 0.0585), (2013, 0.1434), (2014, - 0.0234),
     (2015, - 0.0485), (2016, 0.1434), (2017, 0.0734), (2018, - 0.1234), (2019, 0.1234),
     (2020, - 0.1434), (2021, 0.1434), (2022, 0.0034), (2023, 0.0384), (2024, 0.075)]"

definition returns_nikkei225 :: "(int \<times> rat) list" where
  "returns_nikkei225 =
    [(1990, - 0.3834), (1991, 0.0434), (1992, - 0.2634), (1993, 0.0334), (1994, 0.1334),
     (1995, - 0.0134), (1996, - 0.0334), (1997, - 0.2134), (1998, - 0.0934), (1999, 0.3634),
     (2000, - 0.2734), (2001, - 0.2334), (2002, - 0.1834), (2003, 0.2434), (2004, 0.0734),
     (2005, 0.4034), (2006, 0.0634), (2007, - 0.1134), (2008, - 0.4234), (2009, 0.1934),
     (2010, - 0.0334), (2011, - 0.1734), (2012, 0.2284), (2013, 0.5684), (2014, - 0.0834),
     (2015, 0.0934), (2016, - 0.0234), (2017, 0.1934), (2018, - 0.1234), (2019, 0.1834),
     (2020, 0.1634), (2021, 0.0434), (2022, - 0.0934), (2023, 0.2834), (2024, 0.095)]"

text \<open>The table local to \<open>generateRealisticMarketData\<close>.\<close>

definition historicalReturns_market :: "string \<Rightarrow> (int \<times> rat) list option" where
  "historicalReturns_market = map_of
    [(''sp500'', returns_sp500), (''dow'', returns_dow), (''nasdaq'', returns_nasdaq),
     (''russell2000'', returns_russell2000), (''ftse100'', returns_ftse100),
     (''nikkei225'', returns_nikkei225)]"

text \<open>The table local to \<open>calculateCompoundInterestWithDates\<close>: the Dow Jones table
  is under the key \<open>dowjones\<close>, and there are four tables.\<close>

definition allHistoricalReturns :: "string \<Rightarrow> (int \<times> rat) list option" where
  "allHistoricalReturns = map_of
    [(''sp500'', returns_sp500), (''dowjones'', returns_dow), (''nasdaq'', returns_nasdaq),
     (''russell2000'', returns_russell2000)]"

text \<open>\<open>table[year] || defaultReturn\<close>.\<close>

definition lookup_return :: "(int \<times> rat) list \<Rightarrow> rat \<Rightarrow> int \<Rightarrow> rat" where
  "lookup_return tbl d y = js_or (map_of tbl y) d"

section \<open>The compounding engine\<close>

text \<open>
  A transaction as the engine reads it: its date is a valid \<open>Date\<close> (a date string that
  does not parse is not modelled), its type one of the two that the handler lets through.
\<close>

datatype transaction_type = deposit | withdrawal

record Transaction =
  t_date :: jsdate
  t_amount :: rat
  t_type :: transaction_type

record MonthlyDataPoint =
  m_month :: nat
  m_year :: int
  m_monthOfYear :: nat
  m_date :: jsdate
  m_amount :: rat
  m_contributions :: rat
  m_netInvestment :: rat
  m_gains :: rat
  m_annualReturn :: string

record YearlyDataPoint =
  y_year :: int
  y_date :: jsdate
  y_amount :: rat
  y_contributions :: rat
  y_netInvestment :: rat
  y_gains :: rat
  y_roi :: rat
  y_annualReturn :: string

record InvestmentPeriod =
  p_startDate :: jsdate
  p_endDate :: jsdate
  p_totalMonths :: nat

text \<open>\<open>s_averageAnnualReturn\<close> is the string of \<open>toFixed(2)\<close>, \<open>''NaN''\<close> included.\<close>

record CalculationSummary =
  s_finalAmount :: rat
  s_totalContributions :: rat
  s_totalGains :: rat
  s_totalROI :: rat
  s_totalDeposits :: rat
  s_totalWithdrawals :: rat
  s_netInvestment :: rat
  s_netGains :: rat
  s_netROI :: rat
  s_averageAnnualReturn :: string
  s_investmentPeriod :: InvestmentPeriod

record CalculationResult =
  r_summary :: CalculationSummary
  r_monthlyData :: "MonthlyDataPoint list"
  r_yearlyData :: "YearlyDataPoint list"

text \<open>
  The local variables of the loop. \<open>remaining\<close> stands for the pair of
  \<open>sortedTransactions\<close> and \<open>transactionIndex\<close>: it is the part of the sorted list
  from the index on, so \<open>transactionIndex++\<close> drops its head.
\<close>

record walk_state =
  currentAmount :: rat
  currentYear :: int
  currentMonth :: nat
  totalMonths :: nat
  totalContributions :: rat
  totalDeposits :: rat
  totalWithdrawals :: rat
  remaining :: "Transaction list"
  monthlyData :: "MonthlyDataPoint list"
  yearlyData :: "YearlyDataPoint list"

text \<open>The body of \<open>if (transaction.type === 'deposit') ... else if ... 'withdrawal'\<close>.\<close>

definition apply_transaction :: "Transaction \<Rightarrow> walk_state \<Rightarrow> walk_state" where
  "apply_transaction t st =
     (case t_type t of
        deposit \<Rightarrow>
          st\<lparr>currentAmount := currentAmount st + t_amount t,
             totalContributions := totalContributions st + t_amount t,
             totalDeposits := totalDeposits st + t_amount t\<rparr>
      | withdrawal \<Rightarrow>
          (let withdrawalAmount = min (t_amount t) (max 0 (currentAmount st))
           in st\<lparr>currentAmount := currentAmount st - withdrawalAmount,
                 totalWithdrawals := totalWithdrawals st + withdrawalAmount\<rparr>))"

text \<open>
  The inner \<open>while (transactionIndex < sortedTransactions.length)\<close>: a transaction of
  the cursor month is applied, one after \<open>currentDate\<close> (the first of the cursor month)
  stops the loop, and any other one is passed over.
\<close>

fun consume :: "Transaction list \<Rightarrow> walk_state \<Rightarrow> walk_state" where
  "consume [] st = st\<lparr>remaining := []\<rparr>"
| "consume (t # ts) st =
     (if getFullYear (t_date t) = currentYear st \<and> getMonth (t_date t) = currentMonth st
      then consume ts (apply_transaction t st)
      else if getTime (t_date t) > getTime (Date (currentYear st) (currentMonth st) 1)
      then st\<lparr>remaining := t # ts\<rparr>
      else consume ts st)"

text \<open>One iteration of the outer loop.\<close>

definition month_step :: "(int \<times> rat) list \<Rightarrow> rat \<Rightarrow> walk_state \<Rightarrow> walk_state" where
  "month_step historicalReturns defaultReturn st0 =
     (let annualReturn = lookup_return historicalReturns defaultReturn (currentYear st0);
          monthlyReturn = annualReturn / 12;
          currentDate = Date (currentYear st0) (currentMonth st0) 1;
          st1 = consume (remaining st0) st0;
          st2 = st1\<lparr>currentAmount := currentAmount st1 * (1 + monthlyReturn),
                    totalMonths := totalMonths st1 + 1\<rparr>;
          currentGains = currentAmount st2 - totalContributions st2;
          currentNetInvestment = totalDeposits st2 - totalWithdrawals st2;
          st3 = st2\<lparr>monthlyData := monthlyData st2 @
                  [\<lparr>m_month = totalMonths st2,
                    m_year = currentYear st2,
                    m_monthOfYear = currentMonth st2 + 1,
                    m_date = currentDate,
                    m_amount = round2 (currentAmount st2),
                    m_contributions = round2 (totalContributions st2),
                    m_netInvestment = round2 currentNetInvestment,
                    m_gains = round2 currentGains,
                    m_annualReturn = toFixed2 (annualReturn * 100)\<rparr>]\<rparr>;
          st4 = (if currentMonth st3 = 11
                 then (let totalGains = currentAmount st3 - totalContributions st3;
                           roi = (if totalContributions st3 > 0
                                  then totalGains / totalContributions st3 * 100 else 0);
                           yearlyNetInvestment = totalDeposits st3 - totalWithdrawals st3
                       in st3\<lparr>yearlyData := yearlyData st3 @
                            [\<lparr>y_year = currentYear st3,
                              y_date = currentDate,
                              y_amount = round2 (currentAmount st3),
                              y_contributions = round2 (totalContributions st3),
                              y_netInvestment = round2 yearlyNetInvestment,
                              y_gains = round2 totalGains,
                              y_roi = round2 roi,
                              y_annualReturn = toFixed2 (annualReturn * 100)\<rparr>]\<rparr>)
                 else st3)
      in if currentMonth st4 + 1 > 11
         then st4\<lparr>currentMonth := 0, currentYear := currentYear st4 + 1\<rparr>
         else st4\<lparr>currentMonth := currentMonth st4 + 1\<rparr>)"

text \<open>The guard of the outer loop.\<close>

definition in_window :: "jsdate \<Rightarrow> walk_state \<Rightarrow> bool" where
  "in_window end st =
     (currentYear st < getFullYear end \<or>
      (currentYear st = getFullYear end \<and> currentMonth st \<le> getMonth end))"

lemma consume_cursor [simp]:
  "currentYear (consume ts st) = currentYear st \<and> currentMonth (consume ts st) = currentMonth st"
  by (induction ts arbitrary: st)
     (auto simp: apply_transaction_def Let_def split: transaction_type.splits)

lemma month_step_cursor:
  "currentYear (month_step h d st) =
     (if currentMonth st + 1 > 11 then currentYear st + 1 else currentYear st)"
  "currentMonth (month_step h d st) =
     (if currentMonth st + 1 > 11 then 0 else currentMonth st + 1)"
  by (simp_all add: month_step_def Let_def)

function walk :: "(int \<times> rat) list \<Rightarrow> rat \<Rightarrow> jsdate \<Rightarrow> walk_state \<Rightarrow> walk_state" where
  "walk historicalReturns defaultReturn end st =
     (if in_window end st
      then walk historicalReturns defaultReturn end (month_step historicalReturns defaultReturn st)
      else st)"
  by pat_completeness auto
termination
  by (relation "measures [\<lambda>(h, d, e, st). nat (getFullYear e + 1 - currentYear st),
                          \<lambda>(h, d, e, st). 12 - currentMonth st]")
     (auto simp: in_window_def month_step_cursor)

text \<open>The values of the local variables before the loop.\<close>

definition initial_state :: "rat \<Rightarrow> Transaction list \<Rightarrow> jsdate \<Rightarrow> walk_state" where
  "initial_state principal' sortedTransactions start =
     \<lparr>currentAmount = principal',
      currentYear = getFullYear start,
      currentMonth = getMonth start,
      totalMonths = 0,
      totalContributions = principal',
      totalDeposits = principal',
      totalWithdrawals = 0,
      remaining = sortedTransactions,
      monthlyData = [],
      yearlyData = []\<rparr>"

text \<open>
  \<open>avgReturn\<close>: the keys of the table that lie in the window's years, and the mean of
  their returns; \<open>0 / 0\<close> is \<open>NaN\<close> when no key does.
\<close>

definition window_years :: "(int \<times> rat) list \<Rightarrow> jsdate \<Rightarrow> jsdate \<Rightarrow> int list" where
  "window_years historicalReturns start end =
     filter (\<lambda>year. year \<ge> getFullYear start \<and> year \<le> getFullYear end)
       (map fst historicalReturns)"

definition avgReturn :: "(int \<times> rat) list \<Rightarrow> rat \<Rightarrow> jsdate \<Rightarrow> jsdate \<Rightarrow> rat option" where
  "avgReturn historicalReturns defaultReturn start end =
     (let years = window_years historicalReturns start end
      in if length years = 0 then None
         else Some (foldl (\<lambda>sum year. sum + lookup_return historicalReturns defaultReturn year)
                      0 years / of_nat (length years)))"

definition percent_string :: "rat option \<Rightarrow> string" where
  "percent_string a = (case a of None \<Rightarrow> ''NaN'' | Some v \<Rightarrow> toFixed2 (v * 100))"

text \<open>\<open>allHistoricalReturns[marketIndex] || allHistoricalReturns.sp500\<close>.\<close>

definition engine_table :: "string \<Rightarrow> (int \<times> rat) list" where
  "engine_table marketIndex =
     (case allHistoricalReturns marketIndex of Some t \<Rightarrow> t | None \<Rightarrow> returns_sp500)"

text \<open>\<open>MARKET_INDICES[marketIndex]?.averageReturn || MARKET_INDICES.sp500.averageReturn\<close>.\<close>

definition engine_default :: "string \<Rightarrow> rat" where
  "engine_default marketIndex =
     js_or (map_option averageReturn (MARKET_INDICES marketIndex)) (averageReturn sp500_index)"

text \<open>The function on two valid dates: the sort, the loop and the summary.\<close>

definition project ::
  "rat \<Rightarrow> Transaction list \<Rightarrow> jsdate \<Rightarrow> jsdate \<Rightarrow> string \<Rightarrow> CalculationResult" where
  "project principal' transactions start end marketIndex =
     (let historicalReturns = engine_table marketIndex;
          defaultReturn = engine_default marketIndex;
          sortedTransactions = sort_key (\<lambda>t. getTime (t_date t)) transactions;
          st = walk historicalReturns defaultReturn end
                 (initial_state principal' sortedTransactions start);
          finalAmount = currentAmount st;
          netInvestment = totalDeposits st - totalWithdrawals st;
          totalGains = finalAmount - totalContributions st;
          netGains = finalAmount - netInvestment;
          totalROI = (if totalContributions st > 0
                      then totalGains / totalContributions st * 100 else 0);
          netROI = (if netInvestment \<noteq> 0 then netGains / \<bar>netInvestment\<bar> * 100 else 0)
      in \<lparr>r_summary =
            \<lparr>s_finalAmount = round2 finalAmount,
             s_totalContributions = round2 (totalContributions st),
             s_totalGains = round2 totalGains,
             s_totalROI = round2 totalROI,
             s_totalDeposits = round2 (totalDeposits st),
             s_totalWithdrawals = round2 (totalWithdrawals st),
             s_netInvestment = round2 netInvestment,
             s_netGains = round2 netGains,
             s_netROI = round2 netROI,
             s_averageAnnualReturn =
               percent_string (avgReturn historicalReturns defaultReturn start end),
             s_investmentPeriod =
               \<lparr>p_startDate = start, p_endDate = end, p_totalMonths = totalMonths st\<rparr>\<rparr>,
          r_monthlyData = monthlyData st,
          r_yearlyData = yearlyData st\<rparr>)"

text \<open>The exceptions of the two functions.\<close>

datatype error = RangeError | TypeError

text \<open>
  \<open>calculateCompoundInterestWithDates\<close>. The function has no \<open>throw\<close> of its own. With an
  \<open>Invalid Date\<close> every comparison of the loop guard and of the year filter is one with
  \<open>NaN\<close> and false, so the loop body is not entered, and \<open>toISOString()\<close> in the return
  statement throws \<open>RangeError\<close>. \<open>useHistoricalData\<close> is not read.
\<close>

definition calculateCompoundInterestWithDates ::
  "rat \<Rightarrow> Transaction list \<Rightarrow> jsdate option \<Rightarrow> jsdate option \<Rightarrow> bool \<Rightarrow> string
     \<Rightarrow> error + CalculationResult" where
  "calculateCompoundInterestWithDates principal' transactions startDate endDate
       useHistoricalData marketIndex =
     (case startDate of
        None \<Rightarrow> Inl RangeError
      | Some start \<Rightarrow>
          (case endDate of
             None \<Rightarrow> Inl RangeError
           | Some end \<Rightarrow> Inr (project principal' transactions start end marketIndex)))"

section \<open>The validation of transactions in the request handler\<close>

text \<open>
  A field of a request body, as \<open>express.json()\<close> delivers it; \<open>JUndefined\<close> is a field
  that is missing. Arrays and objects as field values are not modelled.
\<close>

datatype json = JUndefined | JNull | JBool bool | JNumber rat | JString string

fun truthy :: "json \<Rightarrow> bool" where
  "truthy JUndefined = False"
| "truthy JNull = False"
| "truthy (JBool b) = b"
| "truthy (JNumber n) = (n \<noteq> 0)"
| "truthy (JString s) = (s \<noteq> [])"

record raw_transaction =
  raw_date :: json
  raw_amount :: json
  raw_type :: json

text \<open>
  \<open>parseFloat(t.amount.toString())\<close>, \<^const>\<open>None\<close> for \<open>NaN\<close>. A number prints and
  parses back to itself; \<open>parseFloat\<close> on the text of a string field is the parameter
  \<open>pf\<close>; \<open>''true''\<close> and \<open>''false''\<close> do not parse. The call is reached for truthy values
  only.
\<close>

fun parseFloat_toString :: "(string \<Rightarrow> rat option) \<Rightarrow> json \<Rightarrow> rat option" where
  "parseFloat_toString pf (JNumber n) = Some n"
| "parseFloat_toString pf (JString s) = pf s"
| "parseFloat_toString pf (JBool b) = None"
| "parseFloat_toString pf JNull = None"
| "parseFloat_toString pf JUndefined = None"

text \<open>
  The predicate of \<open>transactions.filter\<close>; an element of the array that is \<open>null\<close> is
  \<^const>\<open>None\<close>.
\<close>

definition passes_filter :: "(string \<Rightarrow> rat option) \<Rightarrow> raw_transaction option \<Rightarrow> bool" where
  "passes_filter pf e =
     (case e of
        None \<Rightarrow> False
      | Some t \<Rightarrow>
          truthy (raw_date t) \<and> truthy (raw_amount t) \<and> truthy (raw_type t) \<and>
          (raw_type t = JString ''deposit'' \<or> raw_type t = JString ''withdrawal'') \<and>
          parseFloat_toString pf (raw_amount t) \<noteq> None)"

text \<open>What the engine is given: the amount is a number (\<^const>\<open>None\<close> for \<open>NaN\<close>).\<close>

record delivered_transaction =
  d_date :: json
  d_amount :: "rat option"
  d_type :: json

definition validTransactions ::
  "(string \<Rightarrow> rat option) \<Rightarrow> raw_transaction option list \<Rightarrow> delivered_transaction list" where
  "validTransactions pf transactions =
     concat (map (\<lambda>e. case e of
                         None \<Rightarrow> []
                       | Some t \<Rightarrow>
                           [\<lparr>d_date = raw_date t,
                             d_amount = parseFloat_toString pf (raw_amount t),
                             d_type = raw_type t\<rparr>])
                 (filter (passes_filter pf) transactions))"

section \<open>The market data responder\<close>

record HistoricalDataPoint =
  h_year :: int
  h_return :: rat
  h_returnPercentage :: string
  h_date :: string
  h_index :: string
  h_indexName :: string

record Period =
  period_startDate :: jsdate
  period_endDate :: jsdate

text \<open>The response without \<open>lastUpdated\<close>, which is the time of the call;
  \<open>md_averageReturn\<close> is \<^const>\<open>None\<close> for \<open>NaN\<close>.\<close>

record MarketDataResponse =
  md_index :: string
  md_indexName :: string
  md_averageReturn :: "rat option"
  md_historicalData :: "HistoricalDataPoint list"
  md_period :: Period

text \<open>The \<open>while (currentYear <= endYear)\<close> loop; \<open>data.push\<close> appends.\<close>

function market_loop ::
  "(int \<times> rat) list \<Rightarrow> rat \<Rightarrow> string \<Rightarrow> string \<Rightarrow> int \<Rightarrow> int
     \<Rightarrow> HistoricalDataPoint list \<Rightarrow> HistoricalDataPoint list" where
  "market_loop indexReturns defaultReturn index indexName endYear currentYear' data =
     (if currentYear' \<le> endYear
      then (let annualReturn = lookup_return indexReturns defaultReturn currentYear'
            in market_loop indexReturns defaultReturn index indexName endYear (currentYear' + 1)
                 (data @ [\<lparr>h_year = currentYear',
                            h_return = annualReturn,
                            h_returnPercentage = toFixed2 (annualReturn * 100),
                            h_date = show_int currentYear' @ ''-12-31'',
                            h_index = index,
                            h_indexName = indexName\<rparr>]))
      else data)"
  by pat_completeness auto
termination
  by (relation "measure (\<lambda>(r, d, i, n, endYear, currentYear', data). nat (endYear + 1 - currentYear'))")
     auto

text \<open>\<open>data.reduce((sum, item) => sum + item.return, 0) / data.length\<close>.\<close>

definition series_average :: "HistoricalDataPoint list \<Rightarrow> rat option" where
  "series_average data =
     (if length data = 0 then None
      else Some (foldl (\<lambda>sum item. sum + h_return item) 0 data / of_nat (length data)))"

text \<open>
  \<open>new Date(arg || dflt)\<close>: a date argument is \<^const>\<open>None\<close> when it is omitted or
  empty, and \<open>Some None\<close> when its string parses to \<open>Invalid Date\<close>.
\<close>

definition new_Date_or :: "jsdate option option \<Rightarrow> jsdate \<Rightarrow> jsdate option" where
  "new_Date_or arg dflt = (case arg of None \<Rightarrow> Some dflt | Some d \<Rightarrow> d)"

text \<open>
  \<open>generateRealisticMarketData\<close>; \<open>now\<close> is the date of the call. The reads of \<open>MARKET_INDICES[index].averageReturn\<close> and of
  \<open>indexReturns[currentYear]\<close> throw \<open>TypeError\<close> on \<open>undefined\<close>; with an \<open>Invalid Date\<close>
  the loop guard is false and \<open>toISOString()\<close> throws \<open>RangeError\<close>.
\<close>

definition generateRealisticMarketData ::
  "string \<Rightarrow> jsdate option option \<Rightarrow> jsdate option option \<Rightarrow> jsdate
     \<Rightarrow> error + MarketDataResponse" where
  "generateRealisticMarketData index startDate endDate now =
     (let start = new_Date_or startDate (Date 1990 0 1);
          end = new_Date_or endDate now
      in case MARKET_INDICES index of
           None \<Rightarrow> Inl TypeError
         | Some mi \<Rightarrow>
             (case (start, end) of
                (Some s, Some e) \<Rightarrow>
                  (case historicalReturns_market index of
                     None \<Rightarrow>
                       if getFullYear s \<le> getFullYear e then Inl TypeError
                       else Inr \<lparr>md_index = index, md_indexName = name mi,
                                 md_averageReturn = None, md_historicalData = [],
                                 md_period = \<lparr>period_startDate = s, period_endDate = e\<rparr>\<rparr>
                   | Some indexReturns \<Rightarrow>
                       (let data = market_loop indexReturns (averageReturn mi) index (name mi)
                                     (getFullYear e) (getFullYear s) []
                        in Inr \<lparr>md_index = index, md_indexName = name mi,
                                 md_averageReturn = series_average data,
                                 md_historicalData = data,
                                 md_period = \<lparr>period_startDate = s, period_endDate = e\<rparr>\<rparr>))
              | _ \<Rightarrow> Inl RangeError))"

section \<open>The number of simulated months\<close>

text \<open>
  The inclusive count of calendar months from the month of \<open>start\<close> to the month of
  \<open>end\<close>; it is 0 when the month of \<open>end\<close> is the earlier one.
\<close>

definition months_spanned :: "jsdate \<Rightarrow> jsdate \<Rightarrow> nat" where
  "months_spanned start end =
     nat (12 * (getFullYear end - getFullYear start) + int (getMonth end)
          - int (getMonth start) + 1)"

text \<open>The months of the calendar, numbered in order.\<close>

definition month_ordinal :: "jsdate \<Rightarrow> int" where
  "month_ordinal d = 12 * getFullYear d + int (getMonth d)"

definition same_month :: "jsdate \<Rightarrow> jsdate \<Rightarrow> bool" where
  "same_month a b = (getFullYear a = getFullYear b \<and> getMonth a = getMonth b)"

definition months_left :: "jsdate \<Rightarrow> walk_state \<Rightarrow> nat" where
  "months_left e st =
     nat (12 * (getFullYear e - currentYear st) + int (getMonth e) - int (currentMonth st) + 1)"

declare walk.simps [simp del]

lemma apply_transaction_frame [simp]:
  "currentYear (apply_transaction t st) = currentYear st"
  "currentMonth (apply_transaction t st) = currentMonth st"
  "totalMonths (apply_transaction t st) = totalMonths st"
  "monthlyData (apply_transaction t st) = monthlyData st"
  "yearlyData (apply_transaction t st) = yearlyData st"
  by (simp_all add: apply_transaction_def Let_def split: transaction_type.splits)

lemma consume_frame [simp]:
  "totalMonths (consume ts st) = totalMonths st"
  "monthlyData (consume ts st) = monthlyData st"
  "yearlyData (consume ts st) = yearlyData st"
  by (induction ts arbitrary: st) simp_all

lemma month_step_totalMonths: "totalMonths (month_step h d st) = totalMonths st + 1"
  by (simp add: month_step_def Let_def)

lemma month_step_length_monthly:
  "length (monthlyData (month_step h d st)) = length (monthlyData st) + 1"
  by (simp add: month_step_def Let_def)

lemma walk_outside: "\<not> in_window e st \<Longrightarrow> walk h d e st = st"
  by (simp add: walk.simps)

lemma walk_inside: "in_window e st \<Longrightarrow> walk h d e st = walk h d e (month_step h d st)"
  by (subst walk.simps) simp

lemma months_left_outside:
  "currentMonth st < 12 \<Longrightarrow> getMonth e < 12 \<Longrightarrow> \<not> in_window e st \<Longrightarrow> months_left e st = 0"
  by (auto simp: months_left_def in_window_def)

lemma months_left_inside:
  "currentMonth st < 12 \<Longrightarrow> getMonth e < 12 \<Longrightarrow> in_window e st \<Longrightarrow>
   months_left e (month_step h d st) + 1 = months_left e st"
  by (auto simp: months_left_def in_window_def month_step_cursor)

lemma month_step_month_lt: "currentMonth st < 12 \<Longrightarrow> currentMonth (month_step h d st) < 12"
  by (simp add: month_step_cursor)

text \<open>Each pass of the loop adds one monthly snapshot and counts one month.\<close>

lemma walk_counts:
  "currentMonth st < 12 \<Longrightarrow> getMonth e < 12 \<Longrightarrow>
   length (monthlyData (walk h d e st)) = length (monthlyData st) + months_left e st \<and>
   totalMonths (walk h d e st) = totalMonths st + months_left e st"
proof (induction h d e st rule: walk.induct)
  case (1 h d e st)
  show ?case
  proof (cases "in_window e st")
    case True
    have lt: "currentMonth (month_step h d st) < 12"
      using "1.prems"(1) by (rule month_step_month_lt)
    have ih: "length (monthlyData (walk h d e (month_step h d st))) =
                length (monthlyData (month_step h d st)) + months_left e (month_step h d st) \<and>
              totalMonths (walk h d e (month_step h d st)) =
                totalMonths (month_step h d st) + months_left e (month_step h d st)"
      using "1.IH" [OF True lt "1.prems"(2)] .
    have ml: "months_left e (month_step h d st) + 1 = months_left e st"
      using "1.prems" True by (rule months_left_inside)
    show ?thesis
      using ih ml
      by (simp add: walk_inside [OF True] month_step_totalMonths month_step_length_monthly)
  next
    case False
    then show ?thesis
      using "1.prems" by (simp add: walk_outside months_left_outside)
  qed
qed

lemma project_counts:
  assumes "getMonth start < 12" and "getMonth end < 12"
  shows "length (r_monthlyData (project p txs start end idx)) = months_spanned start end"
    and "p_totalMonths (s_investmentPeriod (r_summary (project p txs start end idx))) =
           months_spanned start end"
  using walk_counts [of "initial_state p (sort_key (\<lambda>t. getTime (t_date t)) txs) start" "end"
      "engine_table idx" "engine_default idx"] assms
  by (simp_all add: project_def Let_def initial_state_def months_left_def months_spanned_def)

text \<open>
  C5. For a valid range (\<open>start\<close> not after \<open>end\<close>) the number of monthly snapshots is the
  inclusive count of calendar months from the month of \<open>start\<close> to the month of \<open>end\<close>,
  \<open>totalMonths\<close> of the summary is the same count, and two dates in one calendar month
  give exactly one snapshot, whatever their days.
\<close>

theorem monthly_count_of_valid_range:
  assumes "valid_date start" and "valid_date end" and "getTime start \<le> getTime end"
  shows "length (r_monthlyData (project p txs start end idx)) = months_spanned start end \<and>
         p_totalMonths (s_investmentPeriod (r_summary (project p txs start end idx))) =
           months_spanned start end \<and>
         months_spanned start end = card {month_ordinal start .. month_ordinal end} \<and>
         (same_month start end \<longrightarrow> length (r_monthlyData (project p txs start end idx)) = 1)"
proof -
  have m: "getMonth start < 12" "getMonth end < 12"
    using assms(1,2) by (simp_all add: valid_date_def)
  have le: "getFullYear start < getFullYear end \<or>
            (getFullYear start = getFullYear end \<and> getMonth start \<le> getMonth end)"
    using assms(3) by (auto simp: getTime_def less_eq_prod_def)
  have closed: "months_spanned start end = card {month_ordinal start .. month_ordinal end}"
    by (simp add: months_spanned_def month_ordinal_def algebra_simps)
  have one: "same_month start end \<Longrightarrow> months_spanned start end = 1"
    by (simp add: same_month_def months_spanned_def)
  show ?thesis
    using project_counts [OF m] closed one by simp
qed

theorem monthly_count_of_valid_range_witness:
  "valid_date (Date 2020 0 20) \<and> valid_date (Date 2021 1 5) \<and>
   getTime (Date 2020 0 20) \<le> getTime (Date 2021 1 5) \<and>
   length (r_monthlyData (project 1000 [] (Date 2020 0 20) (Date 2021 1 5) ''sp500'')) = 14 \<and>
   p_totalMonths (s_investmentPeriod
     (r_summary (project 1000 [] (Date 2020 0 20) (Date 2021 1 5) ''sp500''))) = 14 \<and>
   valid_date (Date 2020 0 5) \<and> valid_date (Date 2020 0 20) \<and>
   getTime (Date 2020 0 5) \<le> getTime (Date 2020 0 20) \<and>
   same_month (Date 2020 0 5) (Date 2020 0 20) \<and>
   length (r_monthlyData (project 1000 [] (Date 2020 0 5) (Date 2020 0 20) ''sp500'')) = 1"
  using monthly_count_of_valid_range [of "Date 2020 0 20" "Date 2021 1 5" 1000 "[]" "''sp500''"]
    monthly_count_of_valid_range [of "Date 2020 0 5" "Date 2020 0 20" 1000 "[]" "''sp500''"]
  by (simp add: valid_date_def getTime_def months_spanned_def less_eq_prod_def same_month_def)

section \<open>Ranges that end before they start\<close>

text \<open>The calendar month of \<open>a\<close> is strictly before the calendar month of \<open>b\<close>.\<close>

definition month_before :: "jsdate \<Rightarrow> jsdate \<Rightarrow> bool" where
  "month_before a b =
     (getFullYear a < getFullYear b \<or> (getFullYear a = getFullYear b \<and> getMonth a < getMonth b))"

lemma not_in_window_initial:
  "month_before e s \<Longrightarrow> \<not> in_window e (initial_state p ts s)"
  by (auto simp: month_before_def in_window_def initial_state_def)

lemma project_empty_window:
  assumes "month_before e s"
  shows "r_monthlyData (project p txs s e idx) = []"
    and "r_yearlyData (project p txs s e idx) = []"
    and "p_totalMonths (s_investmentPeriod (r_summary (project p txs s e idx))) = 0"
    and "s_finalAmount (r_summary (project p txs s e idx)) = round2 p"
  using not_in_window_initial [OF assms]
  by (simp_all add: project_def Let_def walk_outside initial_state_def)

text \<open>
  Rounding to two decimals takes the nearest hundredth, the upper one on a tie.
\<close>

lemma round2_nearest:
  "round2 x = of_int \<lfloor>x * 100 + 1 / 2\<rfloor> / 100"
  "x - 1 / 200 < round2 x" "round2 x \<le> x + 1 / 200"
proof -
  show "round2 x = of_int \<lfloor>x * 100 + 1 / 2\<rfloor> / 100"
    by (simp add: round2_def)
  have "x * 100 + 1 / 2 - 1 < rat_of_int \<lfloor>x * 100 + 1 / 2\<rfloor>"
    "rat_of_int \<lfloor>x * 100 + 1 / 2\<rfloor> \<le> x * 100 + 1 / 2"
    by linarith+
  then show "x - 1 / 200 < round2 x" "round2 x \<le> x + 1 / 200"
    by (simp_all add: round2_def field_simps)
qed

text \<open>
  C10. When the end date lies in a calendar month strictly before the month of the start
  date, the function returns a result and raises no error: there is no monthly and no
  yearly snapshot, \<open>totalMonths\<close> is 0 and \<open>finalAmount\<close> is the principal rounded to two
  decimals: the whole number of hundredths \<open>\<lfloor>100 p + 1/2\<rfloor>\<close>, which lies within half a
  hundredth of the principal.
\<close>

theorem end_month_before_start_month:
  assumes "month_before e s"
  shows "\<exists>r. calculateCompoundInterestWithDates p txs (Some s) (Some e) u idx = Inr r \<and>
             r_monthlyData r = [] \<and> r_yearlyData r = [] \<and>
             p_totalMonths (s_investmentPeriod (r_summary r)) = 0 \<and>
             s_finalAmount (r_summary r) = of_int \<lfloor>p * 100 + 1 / 2\<rfloor> / 100 \<and>
             p - 1 / 200 < s_finalAmount (r_summary r) \<and>
             s_finalAmount (r_summary r) \<le> p + 1 / 200"
  using project_empty_window [OF assms] round2_nearest [of p]
  by (simp add: calculateCompoundInterestWithDates_def)

theorem end_month_before_start_month_witness:
  "month_before (Date 2020 0 10) (Date 2020 2 15) \<and>
   (\<exists>r. calculateCompoundInterestWithDates (1234.5678) [] (Some (Date 2020 2 15))
           (Some (Date 2020 0 10)) True ''sp500'' = Inr r \<and>
        r_monthlyData r = [] \<and> r_yearlyData r = [] \<and>
        p_totalMonths (s_investmentPeriod (r_summary r)) = 0 \<and>
        s_finalAmount (r_summary r) = 1234.57)"
proof -
  have r: "rat_of_int \<lfloor>(1234.5678 :: rat) * 100 + 1 / 2\<rfloor> / 100 = 1234.57"
    by code_simp
  show ?thesis
    using end_month_before_start_month
      [of "Date 2020 0 10" "Date 2020 2 15" "1234.5678" "[]" True "''sp500''"]
    unfolding r by (simp add: month_before_def) blast
qed

text \<open>
  C1, as the code has it. The function checks no range: for an end date strictly before
  the start date it returns a result, with one monthly snapshot when the two dates share a
  calendar month and none otherwise. It fails exactly when one of the two dates is an
  \<open>Invalid Date\<close>, and the result of the model is then the error alone.
\<close>

theorem end_before_start_returns:
  assumes "valid_date s" and "valid_date e" and "getTime e < getTime s"
  shows "(\<exists>r. calculateCompoundInterestWithDates p txs (Some s) (Some e) u idx = Inr r \<and>
              length (r_monthlyData r) = (if same_month s e then 1 else 0)) \<and>
         (\<forall>sd ed. isl (calculateCompoundInterestWithDates p txs sd ed u idx) =
                    (sd = None \<or> ed = None))"
proof -
  have m: "getMonth s < 12" "getMonth e < 12"
    using assms(1,2) by (simp_all add: valid_date_def)
  have "same_month s e \<or> month_before e s"
    using assms(3) by (auto simp: getTime_def less_prod_def same_month_def month_before_def)
  then have "months_spanned s e = (if same_month s e then 1 else 0)"
    using m by (auto simp: same_month_def month_before_def months_spanned_def)
  then have a: "length (r_monthlyData (project p txs s e idx)) = (if same_month s e then 1 else 0)"
    using project_counts(1) [OF m] by simp
  have b: "isl (calculateCompoundInterestWithDates p txs sd ed u idx) = (sd = None \<or> ed = None)"
    for sd ed
    by (simp add: calculateCompoundInterestWithDates_def split: option.splits)
  show ?thesis
    using a b by (simp add: calculateCompoundInterestWithDates_def)
qed

theorem end_before_start_returns_witness:
  "valid_date (Date 2020 0 20) \<and> valid_date (Date 2020 0 5) \<and>
   getTime (Date 2020 0 5) < getTime (Date 2020 0 20) \<and>
   (\<exists>r. calculateCompoundInterestWithDates 1000 [] (Some (Date 2020 0 20)) (Some (Date 2020 0 5))
           True ''sp500'' = Inr r \<and> length (r_monthlyData r) = 1)"
  using end_before_start_returns [of "Date 2020 0 20" "Date 2020 0 5" 1000 "[]" True "''sp500''"]
  by (simp add: valid_date_def getTime_def less_prod_def same_month_def)

text \<open>
  The claim as the specification states it fails: with the start on 15 March 2020 and the
  end on 10 January 2020 the function does not fail.
\<close>

theorem invalid_range_not_rejected:
  "getTime (Date 2020 0 10) < getTime (Date 2020 2 15) \<and>
   \<not> isl (calculateCompoundInterestWithDates 1000 [] (Some (Date 2020 2 15))
            (Some (Date 2020 0 10)) True ''sp500'')"
  by (simp add: getTime_def less_prod_def calculateCompoundInterestWithDates_def)

section \<open>The summary and the last monthly snapshot\<close>

text \<open>
  The loop invariant: the last monthly snapshot, when there is one, holds the rounded
  running values of the state.
\<close>

definition synced :: "walk_state \<Rightarrow> bool" where
  "synced st =
     (monthlyData st = [] \<or>
      (m_amount (last (monthlyData st)) = round2 (currentAmount st) \<and>
       m_contributions (last (monthlyData st)) = round2 (totalContributions st) \<and>
       m_netInvestment (last (monthlyData st)) =
         round2 (totalDeposits st - totalWithdrawals st) \<and>
       m_gains (last (monthlyData st)) = round2 (currentAmount st - totalContributions st)))"

lemma month_step_synced: "synced (month_step h d st)"
  by (simp add: synced_def month_step_def Let_def)

lemma walk_synced: "synced st \<Longrightarrow> synced (walk h d e st)"
proof (induction h d e st rule: walk.induct)
  case (1 h d e st)
  show ?case
  proof (cases "in_window e st")
    case True
    show ?thesis
      using "1.IH" [OF True month_step_synced] by (simp add: walk_inside [OF True])
  next
    case False
    then show ?thesis
      using "1.prems" by (simp add: walk_outside)
  qed
qed

lemma initial_synced: "synced (initial_state p ts s)"
  by (simp add: synced_def initial_state_def)

text \<open>Rounding after a subtraction and subtracting two rounded values differ by a cent
  at most.\<close>

lemma round2_diff:
  "\<bar>round2 (a - b) - (round2 a - round2 b)\<bar> \<le> 1 / 100"
proof -
  define A where "A = a * 100"
  define B where "B = b * 100"
  define k where "k = \<lfloor>A - B + 1 / 2\<rfloor> - \<lfloor>A + 1 / 2\<rfloor> + \<lfloor>B + 1 / 2\<rfloor>"
  have "rat_of_int k < 3 / 2" "rat_of_int k > - (3 / 2)"
    unfolding k_def by (simp_all; linarith)+
  then have "k < 2" "k > - 2"
    by linarith+
  then have "\<bar>k\<bar> \<le> 1"
    by linarith
  then have bound: "\<bar>rat_of_int k\<bar> \<le> 1"
    by linarith
  have eq: "round2 (a - b) - (round2 a - round2 b) = rat_of_int k / 100"
    by (simp add: round2_def k_def A_def B_def algebra_simps diff_divide_distrib add_divide_distrib)
  show ?thesis
    unfolding eq using bound by simp
qed

text \<open>
  C7, as the code has it. When there is a monthly snapshot, \<open>finalAmount\<close>,
  \<open>totalGains\<close> and \<open>netInvestment\<close> of the summary are the \<open>amount\<close>, \<open>gains\<close> and
  \<open>netInvestment\<close> of the last monthly snapshot. \<open>totalGains\<close> and \<open>netInvestment\<close> are
  rounded after the subtraction of the unrounded values, so they are within one cent of
  \<open>finalAmount - totalContributions\<close> and of \<open>totalDeposits - totalWithdrawals\<close> as the
  summary reports them.
\<close>

theorem summary_consistency:
  assumes "r_monthlyData (project p txs s e idx) \<noteq> []"
  shows "s_finalAmount (r_summary (project p txs s e idx)) =
           m_amount (last (r_monthlyData (project p txs s e idx))) \<and>
         s_totalGains (r_summary (project p txs s e idx)) =
           m_gains (last (r_monthlyData (project p txs s e idx))) \<and>
         s_netInvestment (r_summary (project p txs s e idx)) =
           m_netInvestment (last (r_monthlyData (project p txs s e idx))) \<and>
         \<bar>s_totalGains (r_summary (project p txs s e idx)) -
            (s_finalAmount (r_summary (project p txs s e idx)) -
             s_totalContributions (r_summary (project p txs s e idx)))\<bar> \<le> 1 / 100 \<and>
         \<bar>s_netInvestment (r_summary (project p txs s e idx)) -
            (s_totalDeposits (r_summary (project p txs s e idx)) -
             s_totalWithdrawals (r_summary (project p txs s e idx)))\<bar> \<le> 1 / 100"
proof -
  define st where "st = walk (engine_table idx) (engine_default idx) e
    (initial_state p (sort_key (\<lambda>t. getTime (t_date t)) txs) s)"
  have sy: "synced st"
    unfolding st_def by (rule walk_synced [OF initial_synced])
  have ne: "monthlyData st \<noteq> []"
    using assms by (simp add: project_def Let_def st_def)
  show ?thesis
    using sy ne round2_diff [of "currentAmount st" "totalContributions st"]
      round2_diff [of "totalDeposits st" "totalWithdrawals st"]
    by (simp add: project_def Let_def st_def [symmetric] synced_def)
qed

theorem summary_consistency_witness:
  "r_monthlyData (project 1000 [] (Date 2024 0 1) (Date 2024 0 31) ''sp500'') \<noteq> [] \<and>
   s_finalAmount (r_summary (project 1000 [] (Date 2024 0 1) (Date 2024 0 31) ''sp500'')) =
     m_amount (last (r_monthlyData (project 1000 [] (Date 2024 0 1) (Date 2024 0 31) ''sp500'')))"
proof -
  have "length (r_monthlyData (project 1000 [] (Date 2024 0 1) (Date 2024 0 31) ''sp500'')) = 1"
    using project_counts(1) [of "Date 2024 0 1" "Date 2024 0 31" 1000 "[]" "''sp500''"]
    by (simp add: months_spanned_def)
  then have ne: "r_monthlyData (project 1000 [] (Date 2024 0 1) (Date 2024 0 31) ''sp500'') \<noteq> []"
    by auto
  show ?thesis
    using summary_consistency [OF ne] ne by simp
qed

text \<open>
  The claim as the specification states it fails on the rounded values: a principal of
  1.00496 over January 2024 on \<open>sp500\<close> gives \<open>finalAmount\<close> 1.02, \<open>totalContributions\<close> 1.00
  and \<open>totalGains\<close> 0.01.
\<close>

theorem rounded_gains_differ:
  "length (r_monthlyData (project (1.00496) [] (Date 2024 0 1) (Date 2024 0 31) ''sp500'')) = 1 \<and>
   s_totalGains (r_summary (project (1.00496) [] (Date 2024 0 1) (Date 2024 0 31) ''sp500'')) = 0.01 \<and>
   s_finalAmount (r_summary (project (1.00496) [] (Date 2024 0 1) (Date 2024 0 31) ''sp500'')) -
   s_totalContributions (r_summary (project (1.00496) [] (Date 2024 0 1) (Date 2024 0 31) ''sp500''))
     = 0.02"
  by code_simp

section \<open>Transactions dated before the window\<close>

lemma apply_transaction_remaining:
  "apply_transaction t (st\<lparr>remaining := x\<rparr>) = (apply_transaction t st)\<lparr>remaining := x\<rparr>"
  by (simp add: apply_transaction_def Let_def split: transaction_type.splits)

lemma consume_ignores_remaining: "consume ts (st\<lparr>remaining := x\<rparr>) = consume ts st"
  by (induction ts arbitrary: st) (simp_all add: apply_transaction_remaining)

lemma consume_skips:
  "\<forall>t \<in> set pre. month_before (t_date t) (Date (currentYear st) (currentMonth st) 1) \<Longrightarrow>
   consume (pre @ rest) st = consume rest st"
proof (induction pre)
  case Nil
  show ?case by simp
next
  case (Cons t pre)
  have b: "month_before (t_date t) (Date (currentYear st) (currentMonth st) 1)"
    using Cons.prems by simp
  have 1: "\<not> (getFullYear (t_date t) = currentYear st \<and> getMonth (t_date t) = currentMonth st)"
    using b by (auto simp: month_before_def)
  have 2: "\<not> getTime (t_date t) > getTime (Date (currentYear st) (currentMonth st) 1)"
    using b by (auto simp: month_before_def getTime_def less_prod_def)
  have "consume ((t # pre) @ rest) st = consume (pre @ rest) st"
    using 1 2 by auto
  also have "\<dots> = consume rest st"
    using Cons by simp
  finally show ?case .
qed

lemma month_step_cong:
  "consume (remaining st) st = consume (remaining st') st' \<Longrightarrow>
   currentYear st = currentYear st' \<Longrightarrow> currentMonth st = currentMonth st' \<Longrightarrow>
   month_step h d st = month_step h d st'"
  by (simp add: month_step_def Let_def)

text \<open>The state without the transaction pointer.\<close>

definition observable :: "walk_state \<Rightarrow> walk_state" where
  "observable st = st\<lparr>remaining := []\<rparr>"

lemma walk_skips_prefix:
  assumes "\<forall>t \<in> set pre. month_before (t_date t) (Date (currentYear st) (currentMonth st) 1)"
    and "remaining st = pre @ rest"
  shows "observable (walk h d e st) = observable (walk h d e (st\<lparr>remaining := rest\<rparr>))"
proof (cases "in_window e st")
  case True
  then have w': "in_window e (st\<lparr>remaining := rest\<rparr>)"
    by (simp add: in_window_def)
  have "consume (remaining st) st = consume rest st"
    using consume_skips [OF assms(1)] assms(2) by simp
  then have "month_step h d st = month_step h d (st\<lparr>remaining := rest\<rparr>)"
    by (intro month_step_cong) (simp_all add: consume_ignores_remaining)
  then show ?thesis
    by (simp add: walk_inside [OF True] walk_inside [OF w'])
next
  case False
  then have w': "\<not> in_window e (st\<lparr>remaining := rest\<rparr>)"
    by (simp add: in_window_def)
  show ?thesis
    by (simp add: walk_outside [OF False] walk_outside [OF w'] observable_def)
qed

text \<open>In a list sorted by a key, the elements of a downward closed class come first.\<close>

lemma sorted_partition:
  assumes "sorted (map k xs)" and "\<And>a b. k a \<le> k b \<Longrightarrow> P b \<Longrightarrow> P a"
  shows "xs = filter P xs @ filter (\<lambda>x. \<not> P x) xs"
  using assms(1)
proof (induction xs)
  case Nil
  show ?case by simp
next
  case (Cons x xs)
  have le: "\<forall>y \<in> set xs. k x \<le> k y" and so: "sorted (map k xs)"
    using Cons.prems by simp_all
  show ?case
  proof (cases "P x")
    case True
    then show ?thesis using Cons.IH [OF so] by simp
  next
    case False
    then have "\<forall>y \<in> set xs. \<not> P y"
      using le assms(2) by blast
    then have "filter P xs = []" "filter (\<lambda>x. \<not> P x) xs = xs"
      by (simp_all add: filter_empty_conv filter_id_conv)
    then show ?thesis using False by simp
  qed
qed

lemma month_before_downward:
  "getTime a \<le> getTime b \<Longrightarrow> month_before b s \<Longrightarrow> month_before a s"
  by (auto simp: getTime_def less_eq_prod_def month_before_def)

lemma observable_fields:
  assumes "observable a = observable b"
  shows "currentAmount a = currentAmount b" "totalContributions a = totalContributions b"
    "totalDeposits a = totalDeposits b" "totalWithdrawals a = totalWithdrawals b"
    "totalMonths a = totalMonths b" "monthlyData a = monthlyData b" "yearlyData a = yearlyData b"
proof -
  have "currentAmount (observable a) = currentAmount (observable b)"
    "totalContributions (observable a) = totalContributions (observable b)"
    "totalDeposits (observable a) = totalDeposits (observable b)"
    "totalWithdrawals (observable a) = totalWithdrawals (observable b)"
    "totalMonths (observable a) = totalMonths (observable b)"
    "monthlyData (observable a) = monthlyData (observable b)"
    "yearlyData (observable a) = yearlyData (observable b)"
    using assms by simp_all
  then show "currentAmount a = currentAmount b" "totalContributions a = totalContributions b"
    "totalDeposits a = totalDeposits b" "totalWithdrawals a = totalWithdrawals b"
    "totalMonths a = totalMonths b" "monthlyData a = monthlyData b" "yearlyData a = yearlyData b"
    by (simp_all add: observable_def)
qed

text \<open>
  C2, as the code has it. A transaction dated before the month of the start date is never
  applied: at the first pass of the loop the pointer moves past it in the last branch of
  the inner loop, which changes no amount. The result is the one of the same call without
  these transactions.
\<close>

theorem past_due_transactions_dropped:
  "project p txs s e idx = project p (filter (\<lambda>t. \<not> month_before (t_date t) s) txs) s e idx"
proof -
  define k where "k = (\<lambda>t::Transaction. getTime (t_date t))"
  define P where "P = (\<lambda>t::Transaction. month_before (t_date t) s)"
  define srt where "srt = sort_key k txs"
  define st where "st = initial_state p srt s"
  have part: "srt = filter P srt @ filter (\<lambda>t. \<not> P t) srt"
    unfolding srt_def
    by (rule sorted_partition [where k = k]) (auto simp: P_def k_def intro: month_before_downward)
  have pre: "\<forall>t \<in> set (filter P srt).
      month_before (t_date t) (Date (currentYear st) (currentMonth st) 1)"
    by (simp add: P_def st_def initial_state_def month_before_def)
  have rem: "remaining st = filter P srt @ filter (\<lambda>t. \<not> P t) srt"
    using part by (simp add: st_def initial_state_def)
  have st': "st\<lparr>remaining := filter (\<lambda>t. \<not> P t) srt\<rparr> =
      initial_state p (sort_key k (filter (\<lambda>t. \<not> P t) txs)) s"
    by (simp add: st_def initial_state_def srt_def filter_sort)
  have obs: "observable (walk (engine_table idx) (engine_default idx) e st) =
      observable (walk (engine_table idx) (engine_default idx) e
        (initial_state p (sort_key k (filter (\<lambda>t. \<not> P t) txs)) s))"
    using walk_skips_prefix [OF pre rem] st' by simp
  show ?thesis
    using observable_fields [OF obs]
    by (simp add: project_def Let_def st_def srt_def k_def P_def)
qed

theorem past_due_transactions_dropped_witness:
  "project 0 [\<lparr>t_date = Date 2019 11 15, t_amount = 100, t_type = deposit\<rparr>]
     (Date 2020 0 1) (Date 2020 0 31) ''sp500'' =
   project 0 [] (Date 2020 0 1) (Date 2020 0 31) ''sp500''"
  using past_due_transactions_dropped
    [of 0 "[\<lparr>t_date = Date 2019 11 15, t_amount = 100, t_type = deposit\<rparr>]"
       "Date 2020 0 1" "Date 2020 0 31" "''sp500''"]
  by (simp add: month_before_def)

text \<open>
  The claim as the specification states it fails: a deposit of 100 on 15 December 2019 in
  a window over January 2020 is added to no total.
\<close>

theorem past_due_deposit_not_applied:
  "month_before (Date 2019 11 15) (Date 2020 0 1) \<and>
   s_totalDeposits (r_summary (project 0
     [\<lparr>t_date = Date 2019 11 15, t_amount = 100, t_type = deposit\<rparr>]
     (Date 2020 0 1) (Date 2020 0 31) ''sp500'')) = 0 \<and>
   s_totalContributions (r_summary (project 0
     [\<lparr>t_date = Date 2019 11 15, t_amount = 100, t_type = deposit\<rparr>]
     (Date 2020 0 1) (Date 2020 0 31) ''sp500'')) = 0 \<and>
   s_finalAmount (r_summary (project 0
     [\<lparr>t_date = Date 2019 11 15, t_amount = 100, t_type = deposit\<rparr>]
     (Date 2020 0 1) (Date 2020 0 31) ''sp500'')) = 0"
  by code_simp

section \<open>The annual return of a simulated month\<close>

text \<open>No entry of a return table is 0, so \<open>||\<close> falls back on a missing year only.\<close>

definition nonzero_table :: "(int \<times> rat) list \<Rightarrow> bool" where
  "nonzero_table tbl = (\<forall>(y, v) \<in> set tbl. v \<noteq> 0)"

lemma nonzero_tables:
  "nonzero_table returns_sp500" "nonzero_table returns_dow" "nonzero_table returns_nasdaq"
  "nonzero_table returns_russell2000" "nonzero_table returns_ftse100"
  "nonzero_table returns_nikkei225"
  by (simp_all add: nonzero_table_def returns_sp500_def returns_dow_def returns_nasdaq_def
      returns_russell2000_def returns_ftse100_def returns_nikkei225_def)

lemma lookup_return_nonzero:
  "nonzero_table tbl \<Longrightarrow>
   lookup_return tbl d y = (case map_of tbl y of Some v \<Rightarrow> v | None \<Rightarrow> d)"
  by (auto simp: lookup_return_def js_or_def nonzero_table_def split: option.splits
      dest!: map_of_SomeD)

lemma engine_table_nonzero: "nonzero_table (engine_table idx)"
  by (auto simp: engine_table_def allHistoricalReturns_def nonzero_tables split: option.splits if_splits)

lemma MARKET_INDICES_nonzero: "MARKET_INDICES idx = Some mi \<Longrightarrow> averageReturn mi \<noteq> 0"
  by (auto simp: MARKET_INDICES_def sp500_index_def split: if_splits)

lemma engine_default_recognized: "MARKET_INDICES idx = Some mi \<Longrightarrow> engine_default idx = averageReturn mi"
  using MARKET_INDICES_nonzero [of idx mi] by (simp add: engine_default_def js_or_def)

text \<open>The loop invariant: each monthly snapshot carries the return looked up for its year.\<close>

definition stamped :: "(int \<times> rat) list \<Rightarrow> rat \<Rightarrow> walk_state \<Rightarrow> bool" where
  "stamped h d st =
     (\<forall>m \<in> set (monthlyData st). m_annualReturn m = toFixed2 (lookup_return h d (m_year m) * 100))"

lemma month_step_stamped: "stamped h d st \<Longrightarrow> stamped h d (month_step h d st)"
  by (simp add: stamped_def month_step_def Let_def)

lemma walk_stamped: "stamped h d st \<Longrightarrow> stamped h d (walk h d e st)"
proof (induction h d e st rule: walk.induct)
  case (1 h d e st)
  show ?case
  proof (cases "in_window e st")
    case True
    show ?thesis
      using "1.IH" [OF True month_step_stamped [OF "1.prems"]] by (simp add: walk_inside [OF True])
  next
    case False
    then show ?thesis
      using "1.prems" by (simp add: walk_outside)
  qed
qed

lemma month_step_growth:
  "currentAmount (month_step h d st) =
     currentAmount (consume (remaining st) st) * (1 + lookup_return h d (currentYear st) / 12)"
  by (simp add: month_step_def Let_def)

text \<open>
  What the code does for an index of \<open>MARKET_INDICES\<close>: the annual return of a year is the
  entry of that year in the table that \<open>engine_table\<close> gives, and the \<open>averageReturn\<close> of the
  index when the year is missing there. This is the return printed in every monthly
  snapshot and the one that grows the amount in every pass of the loop.
\<close>

lemma lookup_of_recognized_index:
  assumes "MARKET_INDICES idx = Some mi"
  shows "(\<forall>y. lookup_return (engine_table idx) (engine_default idx) y =
            (case map_of (case allHistoricalReturns idx of Some t \<Rightarrow> t | None \<Rightarrow> returns_sp500) y of
               Some v \<Rightarrow> v | None \<Rightarrow> averageReturn mi)) \<and>
         (\<forall>m \<in> set (r_monthlyData (project p txs s e idx)).
            m_annualReturn m =
              toFixed2 (lookup_return (engine_table idx) (engine_default idx) (m_year m) * 100)) \<and>
         (\<forall>st. currentAmount (month_step (engine_table idx) (engine_default idx) st) =
            currentAmount (consume (remaining st) st) *
              (1 + lookup_return (engine_table idx) (engine_default idx) (currentYear st) / 12))"
proof -
  have a: "lookup_return (engine_table idx) (engine_default idx) y =
      (case map_of (case allHistoricalReturns idx of Some t \<Rightarrow> t | None \<Rightarrow> returns_sp500) y of
         Some v \<Rightarrow> v | None \<Rightarrow> averageReturn mi)" for y
    unfolding engine_default_recognized [OF assms]
    using lookup_return_nonzero [OF engine_table_nonzero, of idx "averageReturn mi" y]
    by (simp add: engine_table_def)
  have "stamped (engine_table idx) (engine_default idx)
      (walk (engine_table idx) (engine_default idx) e
         (initial_state p (sort_key (\<lambda>t. getTime (t_date t)) txs) s))"
    by (rule walk_stamped) (simp add: stamped_def initial_state_def)
  then have b: "\<forall>m \<in> set (r_monthlyData (project p txs s e idx)).
      m_annualReturn m =
        toFixed2 (lookup_return (engine_table idx) (engine_default idx) (m_year m) * 100)"
    by (simp add: stamped_def project_def Let_def)
  show ?thesis
    using a b month_step_growth by blast
qed

text \<open>
  For an index that has a table under its own key in the engine, this is the lookup that
  the specification describes: the entry of the index's own table, or its own default.
\<close>

lemma lookup_on_own_table:
  assumes "MARKET_INDICES idx = Some mi" and "allHistoricalReturns idx = Some tbl"
  shows "lookup_return (engine_table idx) (engine_default idx) y =
           (case map_of tbl y of Some v \<Rightarrow> v | None \<Rightarrow> averageReturn mi)"
  using lookup_of_recognized_index [OF assms(1), of "0" "[]" "Date 0 0 1" "Date 0 0 1"] assms(2)
  by simp

text \<open>
  C3 fails on the code for \<open>dow\<close>. The index is one of \<open>MARKET_INDICES\<close>, and the return
  table of the Dow Jones is in the engine, but under the key \<open>dowjones\<close>, which is no index
  of \<open>MARKET_INDICES\<close>; the responder has the same table under \<open>dow\<close>. So the walk for
  \<open>dow\<close> runs on the \<open>sp500\<close> table: over January 2020 it uses 16.40 per cent, where the
  entry of the Dow Jones for 2020 is 7.25 per cent, and 1000 grows to 1013.67 and not to
  1006.04.
\<close>

theorem dow_walks_on_sp500_table:
  "map_option name (MARKET_INDICES ''dow'') = Some ''Dow Jones'' \<and>
   allHistoricalReturns ''dow'' = None \<and>
   allHistoricalReturns ''dowjones'' = Some returns_dow \<and>
   MARKET_INDICES ''dowjones'' = None \<and>
   historicalReturns_market ''dow'' = Some returns_dow \<and>
   map_of returns_dow 2020 = Some 0.0725 \<and>
   map_of returns_sp500 2020 = Some 0.1640 \<and>
   lookup_return (engine_table ''dow'') (engine_default ''dow'') 2020 = 0.1640 \<and>
   map m_annualReturn
     (r_monthlyData (project 1000 [] (Date 2020 0 1) (Date 2020 0 31) ''dow'')) = [''16.40''] \<and>
   map m_amount
     (r_monthlyData (project 1000 [] (Date 2020 0 1) (Date 2020 0 31) ''dow'')) = [1013.67] \<and>
   toFixed2 (0.0725 * 100) = ''7.25'' \<and>
   round2 (1000 * (1 + 0.0725 / 12)) = 1006.04"
  by code_simp

section \<open>The withdrawal clamp\<close>

text \<open>
  The balance is never negative in a walk that starts from a principal that is not
  negative and has no deposit of a negative amount: no return of a table or default is
  below \<open>-12\<close>, so the monthly factor is not negative.
\<close>

definition deposits_nonneg :: "Transaction list \<Rightarrow> bool" where
  "deposits_nonneg ts = (\<forall>t \<in> set ts. t_type t = deposit \<longrightarrow> 0 \<le> t_amount t)"

definition solvent :: "walk_state \<Rightarrow> bool" where
  "solvent st =
     (0 \<le> currentAmount st \<and> deposits_nonneg (remaining st) \<and>
      (\<forall>m \<in> set (monthlyData st). 0 \<le> m_amount m))"

lemma apply_transaction_nonneg:
  "0 \<le> currentAmount st \<Longrightarrow> (t_type t = deposit \<longrightarrow> 0 \<le> t_amount t) \<Longrightarrow>
   0 \<le> currentAmount (apply_transaction t st)"
  by (auto simp: apply_transaction_def Let_def min_def max_def split: transaction_type.splits)

lemma consume_nonneg:
  "0 \<le> currentAmount st \<Longrightarrow> deposits_nonneg ts \<Longrightarrow>
   0 \<le> currentAmount (consume ts st) \<and> deposits_nonneg (remaining (consume ts st))"
proof (induction ts arbitrary: st)
  case Nil
  then show ?case by (simp add: deposits_nonneg_def)
next
  case (Cons t ts)
  have d: "deposits_nonneg ts" and a: "t_type t = deposit \<longrightarrow> 0 \<le> t_amount t"
    using Cons.prems(2) by (simp_all add: deposits_nonneg_def)
  have n: "0 \<le> currentAmount (apply_transaction t st)"
    using Cons.prems(1) a by (rule apply_transaction_nonneg)
  show ?case
    using Cons.IH [OF n d] Cons.IH [OF Cons.prems(1) d] Cons.prems by simp
qed

lemma round2_nonneg: "0 \<le> x \<Longrightarrow> 0 \<le> round2 x"
  by (simp add: round2_def)

definition bounded_returns :: "(int \<times> rat) list \<Rightarrow> rat \<Rightarrow> bool" where
  "bounded_returns h d = (\<forall>y. - 12 \<le> lookup_return h d y)"

lemma month_step_solvent:
  assumes "solvent st" and "bounded_returns h d"
  shows "solvent (month_step h d st)"
proof -
  have c: "0 \<le> currentAmount (consume (remaining st) st) \<and>
           deposits_nonneg (remaining (consume (remaining st) st))"
    using assms(1) by (intro consume_nonneg) (simp_all add: solvent_def)
  have f: "0 \<le> 1 + lookup_return h d (currentYear st) / 12"
    using assms(2) [unfolded bounded_returns_def, rule_format, of "currentYear st"] by simp
  have g: "0 \<le> currentAmount (consume (remaining st) st) * (1 + lookup_return h d (currentYear st) / 12)"
    using c f by simp
  show ?thesis
    using assms(1) c g round2_nonneg [OF g]
    by (simp add: solvent_def month_step_def Let_def)
qed


lemma walk_solvent: "solvent st \<Longrightarrow> bounded_returns h d \<Longrightarrow> solvent (walk h d e st)"
proof (induction h d e st rule: walk.induct)
  case (1 h d e st)
  show ?case
  proof (cases "in_window e st")
    case True
    show ?thesis
      using "1.IH" [OF True month_step_solvent [OF "1.prems"] "1.prems"(2)]
      by (simp add: walk_inside [OF True])
  next
    case False
    then show ?thesis
      using "1.prems" by (simp add: walk_outside)
  qed
qed

definition table_above :: "(int \<times> rat) list \<Rightarrow> bool" where
  "table_above tbl = (\<forall>(y, v) \<in> set tbl. - 12 \<le> v)"

lemma tables_above:
  "table_above returns_sp500" "table_above returns_dow" "table_above returns_nasdaq"
  "table_above returns_russell2000"
  by (simp_all add: table_above_def returns_sp500_def returns_dow_def returns_nasdaq_def
      returns_russell2000_def)

lemma engine_table_above: "table_above (engine_table idx)"
  by (auto simp: engine_table_def allHistoricalReturns_def tables_above split: option.splits if_splits)

lemma engine_default_above: "- 12 \<le> engine_default idx"
  by (auto simp: engine_default_def js_or_def MARKET_INDICES_def sp500_index_def)

lemma engine_bounded_returns: "bounded_returns (engine_table idx) (engine_default idx)"
  using engine_table_above [of idx] engine_default_above [of idx]
  by (auto simp: bounded_returns_def lookup_return_def js_or_def table_above_def
      split: option.splits dest!: map_of_SomeD)

lemma balances_nonnegative:
  assumes "0 \<le> p" and "deposits_nonneg txs"
  shows "\<forall>m \<in> set (r_monthlyData (project p txs s e idx)). 0 \<le> m_amount m"
    and "0 \<le> s_finalAmount (r_summary (project p txs s e idx))"
proof -
  have "solvent (initial_state p (sort_key (\<lambda>t. getTime (t_date t)) txs) s)"
    using assms by (simp add: solvent_def initial_state_def deposits_nonneg_def)
  then have w: "solvent (walk (engine_table idx) (engine_default idx) e
      (initial_state p (sort_key (\<lambda>t. getTime (t_date t)) txs) s))"
    using engine_bounded_returns by (rule walk_solvent)
  show "\<forall>m \<in> set (r_monthlyData (project p txs s e idx)). 0 \<le> m_amount m"
    using w by (simp add: solvent_def project_def Let_def)
  show "0 \<le> s_finalAmount (r_summary (project p txs s e idx))"
    using w by (simp add: solvent_def project_def Let_def round2_nonneg)
qed

text \<open>
  C6, as the code has it. A withdrawal takes \<open>min(amount, max(0, currentAmount))\<close> from
  \<open>currentAmount\<close> and adds that amount, and nothing else, to \<open>totalWithdrawals\<close>;
  \<open>totalContributions\<close> and \<open>totalDeposits\<close> stay. When the balance before the withdrawal
  is not negative, the balance after it is not negative; when moreover the requested
  amount exceeds the balance, the balance becomes 0 and the recorded withdrawal is the
  balance before.
\<close>

theorem withdrawal_clamp:
  assumes "t_type t = withdrawal"
  shows "currentAmount (apply_transaction t st) =
           currentAmount st - min (t_amount t) (max 0 (currentAmount st)) \<and>
         totalWithdrawals (apply_transaction t st) =
           totalWithdrawals st + min (t_amount t) (max 0 (currentAmount st)) \<and>
         totalContributions (apply_transaction t st) = totalContributions st \<and>
         totalDeposits (apply_transaction t st) = totalDeposits st \<and>
         (0 \<le> currentAmount st \<longrightarrow> 0 \<le> currentAmount (apply_transaction t st)) \<and>
         (0 \<le> currentAmount st \<and> currentAmount st < t_amount t \<longrightarrow>
            currentAmount (apply_transaction t st) = 0 \<and>
            totalWithdrawals (apply_transaction t st) = totalWithdrawals st + currentAmount st)"
  using assms by (auto simp: apply_transaction_def Let_def min_def max_def)

theorem withdrawal_clamp_witness:
  "t_type \<lparr>t_date = Date 2025 0 15, t_amount = 500, t_type = withdrawal\<rparr> = withdrawal \<and>
   0 \<le> currentAmount (initial_state 100 [] (Date 2025 0 1)) \<and>
   currentAmount (initial_state 100 [] (Date 2025 0 1)) < 500 \<and>
   currentAmount (apply_transaction \<lparr>t_date = Date 2025 0 15, t_amount = 500, t_type = withdrawal\<rparr>
     (initial_state 100 [] (Date 2025 0 1))) = 0 \<and>
   totalWithdrawals (apply_transaction \<lparr>t_date = Date 2025 0 15, t_amount = 500, t_type = withdrawal\<rparr>
     (initial_state 100 [] (Date 2025 0 1))) = 100"
  using withdrawal_clamp [of "\<lparr>t_date = Date 2025 0 15, t_amount = 500, t_type = withdrawal\<rparr>"
      "initial_state 100 [] (Date 2025 0 1)"]
  by (simp add: initial_state_def)

text \<open>
  The claim as the specification states it fails when the balance is negative before the
  withdrawal: from a principal of \<open>-100\<close> a withdrawal of 50 takes nothing, the balance
  stays at \<open>-100\<close> and the recorded withdrawal is 0.
\<close>

theorem withdrawal_from_negative_balance:
  "currentAmount (consume [\<lparr>t_date = Date 2025 0 15, t_amount = 50, t_type = withdrawal\<rparr>]
     (initial_state (- 100) [\<lparr>t_date = Date 2025 0 15, t_amount = 50, t_type = withdrawal\<rparr>]
        (Date 2025 0 1))) = - 100 \<and>
   totalWithdrawals (consume [\<lparr>t_date = Date 2025 0 15, t_amount = 50, t_type = withdrawal\<rparr>]
     (initial_state (- 100) [\<lparr>t_date = Date 2025 0 15, t_amount = 50, t_type = withdrawal\<rparr>]
        (Date 2025 0 1))) = 0 \<and>
   s_totalWithdrawals (r_summary (project (- 100)
     [\<lparr>t_date = Date 2025 0 15, t_amount = 50, t_type = withdrawal\<rparr>]
     (Date 2025 0 1) (Date 2025 0 31) ''sp500'')) = 0 \<and>
   s_finalAmount (r_summary (project (- 100)
     [\<lparr>t_date = Date 2025 0 15, t_amount = 50, t_type = withdrawal\<rparr>]
     (Date 2025 0 1) (Date 2025 0 31) ''sp500'')) = - 100.83"
  by code_simp

section \<open>What the validation filter delivers\<close>

lemma delivered_iff:
  "v \<in> set (validTransactions pf ts) \<longleftrightarrow>
     (\<exists>t a. Some t \<in> set ts \<and> truthy (raw_date t) \<and> truthy (raw_amount t) \<and>
        (raw_type t = JString ''deposit'' \<or> raw_type t = JString ''withdrawal'') \<and>
        parseFloat_toString pf (raw_amount t) = Some a \<and>
        v = \<lparr>d_date = raw_date t, d_amount = Some a, d_type = raw_type t\<rparr>)"
proof
  assume "v \<in> set (validTransactions pf ts)"
  then obtain e where e: "e \<in> set ts" "passes_filter pf e"
    and v: "v \<in> set (case e of None \<Rightarrow> []
              | Some t \<Rightarrow> [\<lparr>d_date = raw_date t,
                             d_amount = parseFloat_toString pf (raw_amount t),
                             d_type = raw_type t\<rparr>])"
    by (auto simp: validTransactions_def)
  from e(2) obtain t where t: "e = Some t"
    by (cases e) (simp_all add: passes_filter_def)
  from e(2) t obtain a where a: "parseFloat_toString pf (raw_amount t) = Some a"
    by (auto simp: passes_filter_def)
  show "\<exists>t a. Some t \<in> set ts \<and> truthy (raw_date t) \<and> truthy (raw_amount t) \<and>
        (raw_type t = JString ''deposit'' \<or> raw_type t = JString ''withdrawal'') \<and>
        parseFloat_toString pf (raw_amount t) = Some a \<and>
        v = \<lparr>d_date = raw_date t, d_amount = Some a, d_type = raw_type t\<rparr>"
    using e t a v by (intro exI [of _ t] exI [of _ a]) (simp add: passes_filter_def)
next
  assume "\<exists>t a. Some t \<in> set ts \<and> truthy (raw_date t) \<and> truthy (raw_amount t) \<and>
        (raw_type t = JString ''deposit'' \<or> raw_type t = JString ''withdrawal'') \<and>
        parseFloat_toString pf (raw_amount t) = Some a \<and>
        v = \<lparr>d_date = raw_date t, d_amount = Some a, d_type = raw_type t\<rparr>"
  then obtain t a where h: "Some t \<in> set ts" "truthy (raw_date t)" "truthy (raw_amount t)"
    "raw_type t = JString ''deposit'' \<or> raw_type t = JString ''withdrawal''"
    "parseFloat_toString pf (raw_amount t) = Some a"
    "v = \<lparr>d_date = raw_date t, d_amount = Some a, d_type = raw_type t\<rparr>"
    by blast
  have ty: "truthy (raw_type t)"
    using h(4) by auto
  have p: "passes_filter pf (Some t)"
    using h ty by (simp add: passes_filter_def)
  have m: "Some t \<in> set (filter (passes_filter pf) ts)"
    using h(1) p by simp
  show "v \<in> set (validTransactions pf ts)"
    unfolding validTransactions_def set_concat set_map image_image
    by (rule UN_I [OF m]) (simp add: h(5,6))
qed


lemma number_amount_delivered:
  "(truthy (JNumber n) \<and> parseFloat_toString pf (JNumber n) = Some a) = (n \<noteq> 0 \<and> a = n)"
  by auto

text \<open>
  C8, as the code has it. The transactions given to the engine are those of the entries
  with a truthy date, amount and type, a type that is \<open>deposit\<close> or \<open>withdrawal\<close>, and an
  amount that \<open>parseFloat\<close> reads as a number, which becomes the amount given. The sign
  is not looked at: an amount that is a JSON number passes exactly when it is not 0.
\<close>

theorem delivered_amounts:
  "(v \<in> set (validTransactions pf ts) \<longleftrightarrow>
     (\<exists>t a. Some t \<in> set ts \<and> truthy (raw_date t) \<and> truthy (raw_amount t) \<and>
        (raw_type t = JString ''deposit'' \<or> raw_type t = JString ''withdrawal'') \<and>
        parseFloat_toString pf (raw_amount t) = Some a \<and>
        v = \<lparr>d_date = raw_date t, d_amount = Some a, d_type = raw_type t\<rparr>)) \<and>
   ((truthy (JNumber n) \<and> parseFloat_toString pf (JNumber n) = Some b) = (n \<noteq> 0 \<and> b = n))"
  by (rule conjI [OF delivered_iff number_amount_delivered])

theorem delivered_amounts_witness:
  "\<lparr>d_date = JString ''2020-01-15'', d_amount = Some (- 5), d_type = JString ''deposit''\<rparr>
     \<in> set (validTransactions (\<lambda>s. None)
          [Some \<lparr>raw_date = JString ''2020-01-15'', raw_amount = JNumber (- 5),
                 raw_type = JString ''deposit''\<rparr>])"
  using delivered_amounts
    [of "\<lparr>d_date = JString ''2020-01-15'', d_amount = Some (- 5), d_type = JString ''deposit''\<rparr>"
       "\<lambda>s. None"
       "[Some \<lparr>raw_date = JString ''2020-01-15'', raw_amount = JNumber (- 5),
               raw_type = JString ''deposit''\<rparr>]" 1 1]
  by simp

text \<open>
  The claim as the specification states it fails: a deposit with the amount \<open>-5\<close> passes
  the filter and is given to the engine with this amount.
\<close>

theorem negative_amount_delivered:
  "validTransactions (\<lambda>s. None)
     [Some \<lparr>raw_date = JString ''2020-01-15'', raw_amount = JNumber (- 5),
            raw_type = JString ''deposit''\<rparr>] =
   [\<lparr>d_date = JString ''2020-01-15'', d_amount = Some (- 5), d_type = JString ''deposit''\<rparr>]"
  by (simp add: validTransactions_def passes_filter_def)

section \<open>The yearly series of the market data responder\<close>

text \<open>The entry that one pass of the loop pushes for the year \<open>y\<close>.\<close>

definition year_entry :: "(int \<times> rat) list \<Rightarrow> rat \<Rightarrow> string \<Rightarrow> string \<Rightarrow> int \<Rightarrow> HistoricalDataPoint" where
  "year_entry indexReturns defaultReturn index indexName y =
     \<lparr>h_year = y,
      h_return = lookup_return indexReturns defaultReturn y,
      h_returnPercentage = toFixed2 (lookup_return indexReturns defaultReturn y * 100),
      h_date = show_int y @ ''-12-31'',
      h_index = index,
      h_indexName = indexName\<rparr>"

declare market_loop.simps [simp del]

lemma market_loop_closed:
  "market_loop r d i n endYear y data = data @ map (year_entry r d i n) [y..endYear]"
proof (induction r d i n endYear y data rule: market_loop.induct)
  case (1 r d i n endYear y data)
  show ?case
  proof (cases "y \<le> endYear")
    case True
    have u: "[y..endYear] = y # [y + 1..endYear]"
      using True by (simp add: upto_rec1)
    show ?thesis
      using "1.IH" [OF True refl] True
      by (subst market_loop.simps) (simp add: u Let_def year_entry_def)
  next
    case False
    then show ?thesis
      by (subst market_loop.simps) simp
  qed
qed

lemma foldl_sum: "foldl (\<lambda>sum item. sum + f item) a xs = a + sum_list (map f xs)"
  by (induction xs arbitrary: a) (simp_all add: add.assoc)

lemma series_average_mean:
  "series_average data =
     (if data = [] then None else Some (sum_list (map h_return data) / of_nat (length data)))"
  by (simp add: series_average_def foldl_sum)

lemma market_tables_nonzero:
  "historicalReturns_market idx = Some tbl \<Longrightarrow> nonzero_table tbl"
  by (auto simp: historicalReturns_market_def nonzero_tables split: if_splits)

lemma market_table_recognized:
  "MARKET_INDICES idx = Some mi \<Longrightarrow> \<exists>tbl. historicalReturns_market idx = Some tbl"
  by (auto simp: MARKET_INDICES_def historicalReturns_market_def split: if_splits)

text \<open>
  Reading a date string: the text before the last six characters is a decimal year with
  an optional sign, the last six characters are \<open>-MM-DD\<close>. The reader is independent of
  the printing of numbers above.
\<close>

definition digit_value :: "char \<Rightarrow> nat option" where
  "digit_value c =
     (let k = of_char c :: nat in if 48 \<le> k \<and> k \<le> 57 then Some (k - 48) else None)"

definition read_digits :: "string \<Rightarrow> nat option" where
  "read_digits s =
     foldl (\<lambda>acc c. case acc of None \<Rightarrow> None
                     | Some a \<Rightarrow> map_option (\<lambda>d. 10 * a + d) (digit_value c))
       (Some 0) s"

definition read_nat :: "string \<Rightarrow> nat option" where
  "read_nat s = (if s = [] then None else read_digits s)"

definition read_int :: "string \<Rightarrow> int option" where
  "read_int s =
     (case s of
        [] \<Rightarrow> None
      | c # r \<Rightarrow> if c = CHR ''-'' then map_option (\<lambda>n. - int n) (read_nat r)
                else map_option int (read_nat s))"

definition date_of_string :: "string \<Rightarrow> (int \<times> nat \<times> nat) option" where
  "date_of_string s =
     (let n = length s - 6; y = take n s; t = drop n s
      in if 7 \<le> length s \<and> t ! 0 = CHR ''-'' \<and> t ! 3 = CHR ''-''
         then (case (read_int y, read_nat (take 2 (drop 1 t)), read_nat (drop 4 t)) of
                 (Some yy, Some m, Some d) \<Rightarrow> Some (yy, m, d)
               | _ \<Rightarrow> None)
         else None)"

text \<open>Reading gives back what was printed.\<close>

lemma digit_value_digit_char: "n < 10 \<Longrightarrow> digit_value (digit_char n) = Some n"
proof -
  assume n: "n < 10"
  have "\<forall>k \<in> set [0..<10]. digit_value (digit_char k) = Some k"
    by code_simp
  then show ?thesis
    using n by simp
qed

lemma read_digits_snoc:
  "read_digits (xs @ [c]) =
     (case read_digits xs of None \<Rightarrow> None
      | Some a \<Rightarrow> map_option (\<lambda>d. 10 * a + d) (digit_value c))"
  by (simp add: read_digits_def)

declare show_nat.simps [simp del]

lemma read_digits_show_nat: "read_digits (show_nat n) = Some n"
proof (induction n rule: show_nat.induct)
  case (1 n)
  show ?case
  proof (cases "n < 10")
    case True
    then show ?thesis
      by (subst show_nat.simps) (simp add: read_digits_def digit_value_digit_char)
  next
    case False
    have m: "n mod 10 < 10"
      by simp
    show ?thesis
      using "1.IH" [OF False] False
      by (subst show_nat.simps) (simp add: read_digits_snoc digit_value_digit_char [OF m])
  qed
qed

lemma show_nat_digits: "c \<in> set (show_nat n) \<Longrightarrow> digit_value c \<noteq> None"
proof (induction n rule: show_nat.induct)
  case (1 n)
  show ?case
  proof (cases "n < 10")
    case True
    then show ?thesis
      using "1.prems" by (subst (asm) show_nat.simps) (simp add: digit_value_digit_char)
  next
    case False
    have m: "n mod 10 < 10"
      by simp
    have "c \<in> set (show_nat (n div 10)) \<or> c = digit_char (n mod 10)"
      using "1.prems" False by (subst (asm) show_nat.simps) auto
    then show ?thesis
      using "1.IH" [OF False] digit_value_digit_char [OF m] by auto
  qed
qed

lemma show_nat_nonempty: "show_nat n \<noteq> []"
  by (subst show_nat.simps) simp

lemma read_nat_show_nat: "read_nat (show_nat n) = Some n"
  by (simp add: read_nat_def show_nat_nonempty read_digits_show_nat)

lemma read_int_show_int: "read_int (show_int i) = Some i"
proof (cases "i < 0")
  case True
  then show ?thesis
    by (simp add: read_int_def show_int_def read_nat_show_nat)
next
  case False
  obtain c r where cr: "show_nat (nat i) = c # r"
    using show_nat_nonempty [of "nat i"] by (cases "show_nat (nat i)") auto
  have "digit_value c \<noteq> None"
    using show_nat_digits [of c "nat i"] cr by simp
  then have "c \<noteq> CHR ''-''"
    by (auto simp: digit_value_def Let_def)
  then show ?thesis
    using False cr read_nat_show_nat [of "nat i"] by (simp add: read_int_def show_int_def)
qed

lemma date_of_december_31:
  "date_of_string (show_int y @ ''-12-31'') = Some (y, 12, 31)"
proof -
  have ne: "show_int y \<noteq> []"
    by (simp add: show_int_def show_nat_nonempty)
  then have l: "1 \<le> length (show_int y)"
    by (cases "show_int y") simp_all
  have a: "read_nat ''12'' = Some 12" "read_nat ''31'' = Some 31"
    by code_simp+
  show ?thesis
    using l a by (simp add: date_of_string_def Let_def read_int_show_int)
qed

text \<open>
  C9. For an index of \<open>MARKET_INDICES\<close> and two dates, the response has one entry for each
  calendar year from the year of the start to the year of the end, in order. Each entry
  carries the return tabulated for its year, or the \<open>averageReturn\<close> of the index when the
  year is not in its table, and a date string that reads as the 31st of month 12 of its
  year. \<open>averageReturn\<close> of the response is the sum of the returns of the series divided by
  its length (\<open>NaN\<close> for an empty series).
\<close>

theorem market_series_per_year:
  assumes "MARKET_INDICES idx = Some mi"
    and "new_Date_or startDate (Date 1990 0 1) = Some s"
    and "new_Date_or endDate now = Some e"
  shows "\<exists>r tbl. generateRealisticMarketData idx startDate endDate now = Inr r \<and>
           historicalReturns_market idx = Some tbl \<and>
           map h_year (md_historicalData r) = [getFullYear s..getFullYear e] \<and>
           (\<forall>h \<in> set (md_historicalData r).
              h_return h = (case map_of tbl (h_year h) of Some v \<Rightarrow> v | None \<Rightarrow> averageReturn mi) \<and>
              date_of_string (h_date h) = Some (h_year h, 12, 31) \<and>
              h_date h = show_int (h_year h) @ ''-12-31'') \<and>
           md_averageReturn r =
             (if md_historicalData r = [] then None
              else Some (sum_list (map h_return (md_historicalData r)) /
                         of_nat (length (md_historicalData r))))"
proof -
  obtain tbl where tbl: "historicalReturns_market idx = Some tbl"
    using market_table_recognized [OF assms(1)] by blast
  define data where "data = map (year_entry tbl (averageReturn mi) idx (name mi))
    [getFullYear s..getFullYear e]"
  have g: "generateRealisticMarketData idx startDate endDate now =
      Inr \<lparr>md_index = idx, md_indexName = name mi, md_averageReturn = series_average data,
           md_historicalData = data,
           md_period = \<lparr>period_startDate = s, period_endDate = e\<rparr>\<rparr>"
    using assms(2,3)
    by (simp add: generateRealisticMarketData_def assms(1) tbl Let_def market_loop_closed data_def)
  have y: "map h_year data = [getFullYear s..getFullYear e]"
    by (simp add: data_def year_entry_def comp_def)
  have e: "\<forall>h \<in> set data.
      h_return h = (case map_of tbl (h_year h) of Some v \<Rightarrow> v | None \<Rightarrow> averageReturn mi) \<and>
      date_of_string (h_date h) = Some (h_year h, 12, 31) \<and>
      h_date h = show_int (h_year h) @ ''-12-31''"
    using lookup_return_nonzero [OF market_tables_nonzero [OF tbl]] date_of_december_31
    by (auto simp: data_def year_entry_def)
  show ?thesis
    using g tbl y e series_average_mean [of data] by (simp add: date_of_december_31)
qed

theorem market_series_per_year_witness:
  "MARKET_INDICES ''sp500'' = Some sp500_index \<and>
   new_Date_or (Some (Some (Date 2020 5 1))) (Date 1990 0 1) = Some (Date 2020 5 1) \<and>
   new_Date_or None (Date 2021 2 1) = Some (Date 2021 2 1) \<and>
   (\<exists>r. generateRealisticMarketData ''sp500'' (Some (Some (Date 2020 5 1))) None (Date 2021 2 1)
          = Inr r \<and>
        map h_year (md_historicalData r) = [2020, 2021] \<and>
        map h_date (md_historicalData r) = [''2020-12-31'', ''2021-12-31''] \<and>
        map h_return (md_historicalData r) = [0.1640, 0.2689])"
proof -
  have a: "MARKET_INDICES ''sp500'' = Some sp500_index"
    by (simp add: MARKET_INDICES_def)
  have b: "new_Date_or (Some (Some (Date 2020 5 1))) (Date 1990 0 1) = Some (Date 2020 5 1)"
    by (simp add: new_Date_or_def)
  have c: "new_Date_or None (Date 2021 2 1) = Some (Date 2021 2 1)"
    by (simp add: new_Date_or_def)
  have u: "[2020..2021] = [2020, 2021 :: int]"
    by (simp add: upto_rec1)
  have d: "show_int 2020 @ ''-12-31'' = ''2020-12-31''" "show_int 2021 @ ''-12-31'' = ''2021-12-31''"
    by code_simp+
  have t: "historicalReturns_market ''sp500'' = Some returns_sp500"
    by (simp add: historicalReturns_market_def)
  have v: "map_of returns_sp500 2020 = Some 0.1640" "map_of returns_sp500 2021 = Some 0.2689"
    by code_simp+
  obtain r tbl where r: "generateRealisticMarketData ''sp500'' (Some (Some (Date 2020 5 1))) None
        (Date 2021 2 1) = Inr r"
    and tb: "historicalReturns_market ''sp500'' = Some tbl"
    and ys: "map h_year (md_historicalData r) =
        [getFullYear (Date 2020 5 1)..getFullYear (Date 2021 2 1)]"
    and hs: "\<forall>h \<in> set (md_historicalData r).
        h_return h = (case map_of tbl (h_year h) of Some v \<Rightarrow> v
                      | None \<Rightarrow> averageReturn sp500_index) \<and>
        date_of_string (h_date h) = Some (h_year h, 12, 31) \<and>
        h_date h = show_int (h_year h) @ ''-12-31''"
    using market_series_per_year [OF a b c] by blast
  have ys': "map h_year (md_historicalData r) = [2020, 2021]"
    using ys u by simp
  then obtain h1 h2 where hh: "md_historicalData r = [h1, h2]" "h_year h1 = 2020" "h_year h2 = 2021"
    by (auto simp: map_eq_Cons_conv)
  have tbl: "tbl = returns_sp500"
    using tb t by simp
  have d1: "h_date h1 = ''2020-12-31''" "h_date h2 = ''2021-12-31''"
    using hs hh d by simp_all
  have r1: "h_return h1 = 0.1640" "h_return h2 = 0.2689"
    using hs hh by (simp_all add: tbl v)
  have m1: "map h_date (md_historicalData r) = [''2020-12-31'', ''2021-12-31'']"
    by (simp add: hh(1) d1)
  have m2: "map h_return (md_historicalData r) = [0.1640, 0.2689]"
    by (simp add: hh(1) r1)
  show ?thesis
    by (intro conjI exI [of _ r]) (fact a b c r ys' m1 m2)+
qed

section \<open>The average annual return of the summary\<close>

text \<open>
  The mean that the specification describes: over every calendar year from the year of
  the start to the year of the end, of the return that the walk looks up for the year.
\<close>

definition mean_over_window :: "(int \<times> rat) list \<Rightarrow> rat \<Rightarrow> jsdate \<Rightarrow> jsdate \<Rightarrow> rat" where
  "mean_over_window historicalReturns defaultReturn start end =
     sum_list (map (lookup_return historicalReturns defaultReturn)
                [getFullYear start..getFullYear end]) /
     of_nat (length [getFullYear start..getFullYear end])"

text \<open>
  The code takes the mean over the keys of the table that lie in the window. Every table
  of the engine has the keys 1990 to 2024, so the two means agree for a window inside
  these years.
\<close>

lemma filter_upto_window:
  "filter (\<lambda>y. a \<le> y \<and> y \<le> b) [l..u] = [max a l..min b u]"
proof (induction l u rule: upto.induct)
  case (1 l u)
  show ?case
  proof (cases "l \<le> u")
    case False
    then show ?thesis by simp
  next
    case True
    have u: "[l..u] = l # [l + 1..u]"
      using True by (simp add: upto_rec1)
    show ?thesis
    proof (cases "a \<le> l \<and> l \<le> b")
      case True
      then have "[max a l..min b u] = l # [max a (l + 1)..min b u]"
        using \<open>l \<le> u\<close> by (simp add: upto_rec1 max_def min_def)
      then show ?thesis
        using "1.IH" [OF \<open>l \<le> u\<close>] True u by simp
    next
      case False
      then have "max a l = max a (l + 1) \<or> (min b u < max a l \<and> min b u < max a (l + 1))"
        using \<open>l \<le> u\<close> by (auto simp: max_def min_def)
      then have "[max a l..min b u] = [max a (l + 1)..min b u]"
        by auto
      then show ?thesis
        using "1.IH" [OF \<open>l \<le> u\<close>] False u by simp
    qed
  qed
qed

lemma table_keys:
  "map fst returns_sp500 = [1990..2024]" "map fst returns_dow = [1990..2024]"
  "map fst returns_nasdaq = [1990..2024]" "map fst returns_russell2000 = [1990..2024]"
  by (simp_all add: returns_sp500_def returns_dow_def returns_nasdaq_def returns_russell2000_def
      upto_rec1)

lemma engine_table_keys: "map fst (engine_table idx) = [1990..2024]"
  by (auto simp: engine_table_def allHistoricalReturns_def table_keys split: option.splits if_splits)

lemma window_years_engine:
  "window_years (engine_table idx) s e = [max (getFullYear s) 1990..min (getFullYear e) 2024]"
  using filter_upto_window [of "getFullYear s" "getFullYear e" 1990 2024]
  by (simp add: window_years_def engine_table_keys)

lemma avgReturn_within_tables:
  assumes "1990 \<le> getFullYear s" and "getFullYear s \<le> getFullYear e" and "getFullYear e \<le> 2024"
  shows "avgReturn (engine_table idx) (engine_default idx) s e =
           Some (mean_over_window (engine_table idx) (engine_default idx) s e)"
  using assms
  by (simp add: avgReturn_def Let_def window_years_engine mean_over_window_def foldl_sum
      max_def min_def)

text \<open>
  C4 fails on the code for a window that reaches beyond the table. From December 2024 to
  January 2025 on \<open>sp500\<close> the walk uses 12.00 for 2024 and the default 10.00 for 2025,
  whose mean prints as 11.00, and the summary reports 12.00, the mean over 2024 alone.
  For a window inside 2025 no key is left, and the summary reports \<open>NaN\<close>.
\<close>

theorem average_skips_years_without_entry:
  "s_averageAnnualReturn (r_summary (project 1000 [] (Date 2024 11 1) (Date 2025 0 31) ''sp500''))
     = ''12.00'' \<and>
   toFixed2 (mean_over_window (engine_table ''sp500'') (engine_default ''sp500'')
     (Date 2024 11 1) (Date 2025 0 31) * 100) = ''11.00'' \<and>
   map m_annualReturn (r_monthlyData (project 1000 [] (Date 2024 11 1) (Date 2025 0 31) ''sp500''))
     = [''12.00'', ''10.00''] \<and>
   s_averageAnnualReturn (r_summary (project 1000 [] (Date 2025 0 1) (Date 2025 0 31) ''sp500''))
     = ''NaN''"
  by code_simp

end
